theory Spec2Isabelle
  imports Complex_Main "HOL-Library.AList" "HOL-Library.Char_ord" "HOL-Library.List_Lexorder"
    "HOL-Library.Multiset"
begin

section \<open>Data model\<close>

text \<open>
  The pipeline of \<^verbatim>\<open>services/agents/enhanced_eda_preprocess.py\<close> works on pandas
  data frames. A frame is an ordered list of named columns; a column carries its dtype
  and one cell per row. A missing cell (NaN, \<^verbatim>\<open>pd.NA\<close>) is \<open>None\<close>. Floating-point
  numbers are modelled as exact reals: rounding error and the infinities are outside the
  model.

  \<^item> \<open>Numeric\<close>: an int64 or float64 column;
  \<^item> \<open>Object\<close>: an object column holding text;
  \<^item> \<open>Category\<close>: a categorical column (what \<^verbatim>\<open>pd.cut\<close> returns), with the
    categories of its dtype and its cells;
  \<^item> \<open>Boolean\<close>: a bool column (what \<^verbatim>\<open>pd.get_dummies\<close> returns).
\<close>

datatype column =
    Numeric "real option list"
  | Object "string option list"
  | Category "string list" "string option list"
  | Boolean "bool list"

type_synonym dataframe = "(string \<times> column) list"

datatype error = KeyError string | TypeError | AttributeError | ValueError | IndexError

text \<open>Python values stored in the report dictionaries.\<close>

datatype pyval = PInt int | PFloat real | PNaN | PStr string | PBool bool

type_synonym pydict = "(string \<times> pyval) list"

fun col_len :: "column \<Rightarrow> nat" where
  "col_len (Numeric xs) = length xs"
| "col_len (Object xs) = length xs"
| "col_len (Category cats xs) = length xs"
| "col_len (Boolean xs) = length xs"

text \<open>\<^verbatim>\<open>len(df)\<close>: the number of rows.\<close>

fun nrows :: "dataframe \<Rightarrow> nat" where
  "nrows [] = 0"
| "nrows ((_, c) # _) = col_len c"

text \<open>\<^verbatim>\<open>pd.api.types.is_numeric_dtype\<close>: true of int, float and bool columns.\<close>

fun is_numeric_dtype :: "column \<Rightarrow> bool" where
  "is_numeric_dtype (Numeric _) = True"
| "is_numeric_dtype (Boolean _) = True"
| "is_numeric_dtype _ = False"

text \<open>\<^verbatim>\<open>series.isnull().sum()\<close>.\<close>

definition count_none :: "'a option list \<Rightarrow> nat" where
  "count_none xs = length (filter (\<lambda>v. v = None) xs)"

fun isnull_sum :: "column \<Rightarrow> nat" where
  "isnull_sum (Numeric xs) = count_none xs"
| "isnull_sum (Object xs) = count_none xs"
| "isnull_sum (Category cats xs) = count_none xs"
| "isnull_sum (Boolean xs) = 0"

text \<open>\<^verbatim>\<open>series.dropna()\<close> on the cells.\<close>

definition dropna :: "'a option list \<Rightarrow> 'a list" where
  "dropna xs = List.map_filter (\<lambda>v. v) xs"

text \<open>Boolean indexing \<^verbatim>\<open>df[mask]\<close>: the rows whose mask entry is true.\<close>

definition select_mask :: "bool list \<Rightarrow> 'a list \<Rightarrow> 'a list" where
  "select_mask msk xs = map snd (filter fst (zip msk xs))"

fun filter_col :: "bool list \<Rightarrow> column \<Rightarrow> column" where
  "filter_col msk (Numeric xs) = Numeric (select_mask msk xs)"
| "filter_col msk (Object xs) = Object (select_mask msk xs)"
| "filter_col msk (Category cats xs) = Category cats (select_mask msk xs)"
| "filter_col msk (Boolean xs) = Boolean (select_mask msk xs)"

definition filter_rows :: "bool list \<Rightarrow> dataframe \<Rightarrow> dataframe" where
  "filter_rows msk df = map (\<lambda>(name, c). (name, filter_col msk c)) df"

section \<open>Python helpers\<close>

text \<open>Raising is the left injection; \<open>bind\<close> runs the next statement on the right one.\<close>

definition bind :: "error + 'a \<Rightarrow> ('a \<Rightarrow> error + 'b) \<Rightarrow> error + 'b" where
  "bind r f = (case r of Inl e \<Rightarrow> Inl e | Inr x \<Rightarrow> f x)"

text \<open>\<^verbatim>\<open>'name' in df.columns\<close>.\<close>

definition has_column :: "dataframe \<Rightarrow> string \<Rightarrow> bool" where
  "has_column df name = (name \<in> set (map fst df))"

definition get_column :: "dataframe \<Rightarrow> string \<Rightarrow> error + column" where
  "get_column df name = (case map_of df name of None \<Rightarrow> Inl (KeyError name) | Some c \<Rightarrow> Inr c)"

text \<open>
  Truth value of \<^verbatim>\<open>target_col\<close> in \<^verbatim>\<open>if target_col and ...\<close>: \<^verbatim>\<open>None\<close> and the
  empty string are false.
\<close>

definition truthy :: "string option \<Rightarrow> bool" where
  "truthy t = (case t of None \<Rightarrow> False | Some s \<Rightarrow> s \<noteq> [])"

text \<open>\<^verbatim>\<open>str.lower()\<close> on the ASCII letters; every other character is kept.\<close>

definition lower_char :: "char \<Rightarrow> char" where
  "lower_char c =
     (case map_of (zip ''ABCDEFGHIJKLMNOPQRSTUVWXYZ'' ''abcdefghijklmnopqrstuvwxyz'') c of
        Some l \<Rightarrow> l
      | None \<Rightarrow> c)"

definition lower :: "string \<Rightarrow> string" where
  "lower s = map lower_char s"

text \<open>\<^verbatim>\<open>term in name\<close> on strings: \<open>term\<close> occurs in \<open>name\<close> as a contiguous part.\<close>

fun is_prefix :: "string \<Rightarrow> string \<Rightarrow> bool" where
  "is_prefix [] ys = True"
| "is_prefix (x # xs) [] = False"
| "is_prefix (x # xs) (y # ys) = (x = y \<and> is_prefix xs ys)"

fun contains :: "string \<Rightarrow> string \<Rightarrow> bool" where
  "contains name [] = True"
| "contains [] (t # ts) = False"
| "contains (c # cs) (t # ts) = (is_prefix (t # ts) (c # cs) \<or> contains cs (t # ts))"

text \<open>\<^verbatim>\<open>series.fillna(v)\<close>; filling with NaN leaves the missing cells missing.\<close>

definition fillna :: "'a option \<Rightarrow> 'a option list \<Rightarrow> 'a option list" where
  "fillna v xs = map (\<lambda>x. case x of None \<Rightarrow> v | Some y \<Rightarrow> Some y) xs"

text \<open>
  \<^verbatim>\<open>Series.median()\<close>: the middle of the sorted values that are not missing, the mean
  of the two middle ones when their number is even, NaN when there is none.
\<close>

definition median :: "real option list \<Rightarrow> real option" where
  "median xs =
     (let s = sort (dropna xs); n = length s in
      if n = 0 then None
      else if odd n then Some (s ! (n div 2))
      else Some ((s ! (n div 2 - 1) + s ! (n div 2)) / 2))"

text \<open>
  \<^verbatim>\<open>Series.mode()\<close> on text, as far as the code reads it: \<^verbatim>\<open>mode()[0]\<close> is the least,
  in the order of strings, of the most frequent values; the result is empty when every
  cell is missing.
\<close>

definition mode :: "string option list \<Rightarrow> string option" where
  "mode xs =
     (let vals = dropna xs;
          cands = sort (remdups vals);
          best = fold max (map (count_list vals) cands) 0
      in find (\<lambda>v. count_list vals v = best) cands)"

text \<open>The values a frame is grouped or compared by.\<close>

datatype key = KNum real | KStr string | KBool bool

fun keys_of :: "column \<Rightarrow> key option list" where
  "keys_of (Numeric xs) = map (map_option KNum) xs"
| "keys_of (Object xs) = map (map_option KStr) xs"
| "keys_of (Category cats xs) = map (map_option KStr) xs"
| "keys_of (Boolean bs) = map (\<lambda>b. Some (KBool b)) bs"

section \<open>Imputation\<close>

definition medical_features :: "string list" where
  "medical_features = [''bmi'', ''hbA1c_level'', ''blood_glucose_level'', ''sleep_hours'']"

definition gender_specific :: "string list" where
  "gender_specific = [''gestational_history'', ''gestational_diabetes'', ''pregnancy_history'']"

definition imputation_record :: "nat \<Rightarrow> string \<Rightarrow> pydict" where
  "imputation_record missing_count imputation_method =
     [(''missing_count'', PInt (int missing_count)),
      (''imputation_method'', PStr imputation_method)]"

text \<open>
  Lines 347-349: \<^verbatim>\<open>groupby(target_col)[col].transform(...)\<close>. Within the group of a
  target value the missing cells get the median of the group, or the median of the whole
  column when the group has none. \<^verbatim>\<open>groupby\<close> drops the rows whose target is missing,
  and the column assigned back has NaN in those rows.
\<close>

definition group_median_fill :: "key option list \<Rightarrow> real option list \<Rightarrow> real option list" where
  "group_median_fill keys xs =
     map (\<lambda>(k, x).
            case k of
              None \<Rightarrow> None
            | Some _ \<Rightarrow>
                (case x of
                   Some v \<Rightarrow> Some v
                 | None \<Rightarrow>
                     (case median (map snd (filter (\<lambda>(k', _). k' = k) (zip keys xs))) of
                        Some m \<Rightarrow> Some m
                      | None \<Rightarrow> median xs)))
         (zip keys xs)"

text \<open>
  The body of the numeric loop (lines 340-361) for one column. The median of a column
  that is not numeric raises TypeError.
\<close>

type_synonym imp_state = "dataframe \<times> (string \<times> pydict) list"

definition impute_numeric :: "dataframe \<Rightarrow> string option \<Rightarrow> string \<Rightarrow> imp_state \<Rightarrow> error + imp_state" where
  "impute_numeric df target_col col st =
     (case st of (df_imputed, imputation_info) \<Rightarrow>
      bind (get_column df_imputed col) (\<lambda>c.
        let missing_count = isnull_sum c in
        if missing_count > 0 then
          (case c of
             Numeric xs \<Rightarrow>
               if col \<in> set medical_features then
                 bind (if truthy target_col \<and> has_column df (the target_col) then
                         bind (get_column df_imputed (the target_col)) (\<lambda>t.
                           Inr (group_median_fill (keys_of t) xs))
                       else Inr (fillna (median xs) xs)) (\<lambda>filled.
                   Inr (AList.update col (Numeric filled) df_imputed,
                        AList.update col
                          (imputation_record missing_count
                             (if truthy target_col then ''group_median'' else ''median''))
                          imputation_info))
               else
                 Inr (AList.update col (Numeric (fillna (median xs) xs)) df_imputed,
                      AList.update col (imputation_record missing_count ''median'')
                        imputation_info)
           | _ \<Rightarrow> Inl TypeError)
        else Inr st))"

text \<open>
  \<^verbatim>\<open>df.loc[mask, col] = df.loc[mask, col].fillna(v)\<close>: the missing cells of the rows of
  the mask get \<open>v\<close>.
\<close>

definition fill_where :: "bool list \<Rightarrow> 'a \<Rightarrow> 'a option list \<Rightarrow> 'a option list" where
  "fill_where msk v xs =
     map (\<lambda>(m, x). if m then (case x of None \<Rightarrow> Some v | Some y \<Rightarrow> Some y) else x) (zip msk xs)"

text \<open>
  The body of \<^verbatim>\<open>for gender_val in df_imputed[gender_col].unique()\<close> (lines 375-385)
  for one value. \<^verbatim>\<open>NaN\<close> is skipped; \<^verbatim>\<open>.lower()\<close> on a value that is no text raises
  AttributeError.
\<close>

definition gender_step :: "key option list \<Rightarrow> key option \<Rightarrow> string option list \<Rightarrow> error + string option list" where
  "gender_step genders gender_val xs =
     (case gender_val of
        None \<Rightarrow> Inr xs
      | Some (KStr g) \<Rightarrow>
          (let gender_mask = map (\<lambda>k. k = Some (KStr g)) genders in
           if lower g \<in> set [''male'', ''m'', ''man''] then
             Inr (fill_where gender_mask ''Not Applicable'' xs)
           else
             (case mode (select_mask gender_mask xs) of
                Some female_mode \<Rightarrow> Inr (fill_where gender_mask female_mode xs)
              | None \<Rightarrow> Inr (fill_where gender_mask ''No'' xs)))
      | Some _ \<Rightarrow> Inl AttributeError)"

fun gender_loop :: "key option list \<Rightarrow> key option list \<Rightarrow> string option list \<Rightarrow> error + string option list" where
  "gender_loop genders [] xs = Inr xs"
| "gender_loop genders (gender_val # vals) xs =
     bind (gender_step genders gender_val xs) (gender_loop genders vals)"

text \<open>\<^verbatim>\<open>series.unique()\<close>: the distinct values in the order of their first appearance.\<close>

definition unique :: "'a list \<Rightarrow> 'a list" where
  "unique xs = rev (remdups (rev xs))"

text \<open>
  The body of the categorical loop (lines 365-405) for one column. The pipeline passes
  object columns only; the model raises TypeError for a column of another dtype that has
  missing cells.
\<close>

definition impute_categorical :: "string \<Rightarrow> imp_state \<Rightarrow> error + imp_state" where
  "impute_categorical col st =
     (case st of (df_imputed, imputation_info) \<Rightarrow>
      bind (get_column df_imputed col) (\<lambda>c.
        let missing_count = isnull_sum c in
        if missing_count > 0 then
          (case c of
             Object xs \<Rightarrow>
               if lower col \<in> set gender_specific then
                 (if has_column df_imputed ''gender'' \<or> has_column df_imputed ''sex'' then
                    (let gender_col = (if has_column df_imputed ''gender'' then ''gender'' else ''sex'') in
                     bind (get_column df_imputed gender_col) (\<lambda>g.
                     bind (gender_loop (keys_of g) (unique (keys_of g)) xs) (\<lambda>filled.
                       Inr (AList.update col (Object filled) df_imputed,
                            AList.update col (imputation_record missing_count ''gender_aware'')
                              imputation_info))))
                  else
                    Inr (AList.update col (Object (fillna (Some ''Not Applicable'') xs)) df_imputed,
                         AList.update col (imputation_record missing_count ''not_applicable'')
                           imputation_info))
               else
                 (case mode xs of
                    Some mode_val \<Rightarrow>
                      Inr (AList.update col (Object (fillna (Some mode_val) xs)) df_imputed,
                           AList.update col (imputation_record missing_count ''mode'')
                             imputation_info)
                  | None \<Rightarrow>
                      Inr (AList.update col (Object (fillna (Some ''Unknown'') xs)) df_imputed,
                           AList.update col (imputation_record missing_count ''unknown'')
                             imputation_info))
           | _ \<Rightarrow> Inl TypeError)
        else Inr st))"

text \<open>A \<^verbatim>\<open>for\<close> loop whose body may raise.\<close>

fun for_each :: "('a \<Rightarrow> 's \<Rightarrow> error + 's) \<Rightarrow> 'a list \<Rightarrow> 's \<Rightarrow> error + 's" where
  "for_each body [] st = Inr st"
| "for_each body (x # xs) st = bind (body x st) (for_each body xs)"

text \<open>\<^verbatim>\<open>enhanced_imputation\<close>: the numeric loop, then the categorical loop.\<close>

definition enhanced_imputation ::
  "dataframe \<Rightarrow> string list \<Rightarrow> string list \<Rightarrow> string option \<Rightarrow> error + imp_state" where
  "enhanced_imputation df numeric_cols categorical_cols target_col =
     bind (for_each (impute_numeric df target_col) numeric_cols (df, []))
       (for_each impute_categorical categorical_cols)"

section \<open>Column roles\<close>

text \<open>
  \<^verbatim>\<open>series.astype(str)\<close>: every cell becomes text, a missing cell the text \<^verbatim>\<open>nan\<close>.
  How a number is printed depends on the dtype of the column (int64 or float64), which
  the model does not keep: \<open>fmt\<close> is Python's \<^verbatim>\<open>str\<close> on the numbers of the column.
\<close>

definition astype_str :: "(real \<Rightarrow> string) \<Rightarrow> column \<Rightarrow> column" where
  "astype_str fmt c =
     (case c of
        Numeric xs \<Rightarrow> Object (map (\<lambda>v. case v of None \<Rightarrow> Some ''nan'' | Some x \<Rightarrow> Some (fmt x)) xs)
      | Object xs \<Rightarrow> Object (map (\<lambda>v. case v of None \<Rightarrow> Some ''nan'' | Some s \<Rightarrow> Some s) xs)
      | Category cats xs \<Rightarrow>
          Object (map (\<lambda>v. case v of None \<Rightarrow> Some ''nan'' | Some s \<Rightarrow> Some s) xs)
      | Boolean bs \<Rightarrow> Object (map (\<lambda>b. Some (if b then ''True'' else ''False'')) bs))"

text \<open>\<^verbatim>\<open>series.replace('nan', pd.NA)\<close>.\<close>

definition replace_nan :: "column \<Rightarrow> column" where
  "replace_nan c =
     (case c of
        Object xs \<Rightarrow> Object (map (\<lambda>v. if v = Some ''nan'' then None else v) xs)
      | _ \<Rightarrow> c)"

text \<open>
  Step 2 of \<^verbatim>\<open>enhanced_preprocessing\<close> (lines 542-562): the roles by dtype, then the
  two overrides. \<open>fmt\<close> gives, for a column name, Python's \<^verbatim>\<open>str\<close> on its numbers.
\<close>

definition override_year ::
  "(string \<Rightarrow> real \<Rightarrow> string) \<Rightarrow> dataframe \<times> string list \<times> string list
   \<Rightarrow> dataframe \<times> string list \<times> string list" where
  "override_year fmt st =
     (case st of (df_clean, numeric_cols, categorical_cols) \<Rightarrow>
        if ''year'' \<in> set numeric_cols then
          (case map_of df_clean ''year'' of
             Some c \<Rightarrow>
               (AList.update ''year'' (astype_str (fmt ''year'') c) df_clean,
                remove1 ''year'' numeric_cols, categorical_cols @ [''year''])
           | None \<Rightarrow> st)
        else st)"

definition override_gestational ::
  "(string \<Rightarrow> real \<Rightarrow> string) \<Rightarrow> dataframe \<times> string list \<times> string list
   \<Rightarrow> dataframe \<times> string list \<times> string list" where
  "override_gestational fmt st =
     (case st of (df_clean, numeric_cols, categorical_cols) \<Rightarrow>
        if ''gestational_history'' \<in> set numeric_cols then
          (case map_of df_clean ''gestational_history'' of
             Some c \<Rightarrow>
               (AList.update ''gestational_history''
                  (replace_nan (astype_str (fmt ''gestational_history'') c)) df_clean,
                remove1 ''gestational_history'' numeric_cols,
                categorical_cols @ [''gestational_history''])
           | None \<Rightarrow> st)
        else st)"

definition is_object :: "column \<Rightarrow> bool" where
  "is_object c = (case c of Object _ \<Rightarrow> True | _ \<Rightarrow> False)"

definition classify_columns ::
  "(string \<Rightarrow> real \<Rightarrow> string) \<Rightarrow> dataframe \<Rightarrow> string option
   \<Rightarrow> dataframe \<times> string list \<times> string list" where
  "classify_columns fmt df_clean target_col =
     (let numeric_cols =
            map fst (filter (\<lambda>(c, col). is_numeric_dtype col \<and> Some c \<noteq> target_col) df_clean);
          categorical_cols =
            map fst (filter (\<lambda>(c, col). is_object col \<and> Some c \<noteq> target_col) df_clean)
      in override_gestational fmt (override_year fmt (df_clean, numeric_cols, categorical_cols)))"

section \<open>Outlier treatment\<close>

text \<open>
  \<^verbatim>\<open>Series.quantile(q)\<close> with pandas' default linear interpolation: missing cells are
  skipped, the position \<open>q * (n - 1)\<close> is located in the sorted values and the result is
  interpolated between its two neighbours. An empty series gives NaN. The pipeline calls
  it with \<open>q = 0.25\<close> and \<open>q = 0.75\<close> only.
\<close>

definition quantile :: "real option list \<Rightarrow> real \<Rightarrow> real option" where
  "quantile xs q =
     (let s = sort (dropna xs); n = length s in
      if n = 0 then None
      else let pos = q * real (n - 1);
               lo = nat \<lfloor>pos\<rfloor>;
               hi = nat \<lceil>pos\<rceil>
           in Some (s ! lo + (s ! hi - s ! lo) * (pos - real lo)))"

text \<open>
  The bounds \<^verbatim>\<open>Q1 - multiplier * IQR\<close> and \<^verbatim>\<open>Q3 + multiplier * IQR\<close>, which
  \<^verbatim>\<open>detect_outliers_iqr\<close> (lines 290-294) and the cap branch of \<^verbatim>\<open>handle_outliers\<close>
  (lines 309-313) both compute with the same five lines. NaN quartiles give NaN bounds.
\<close>

definition iqr_bounds :: "real option list \<Rightarrow> real \<Rightarrow> (real \<times> real) option" where
  "iqr_bounds series multiplier =
     (case (quantile series (1/4), quantile series (3/4)) of
        (Some Q1, Some Q3) \<Rightarrow>
          (let IQR = Q3 - Q1 in Some (Q1 - multiplier * IQR, Q3 + multiplier * IQR))
      | _ \<Rightarrow> None)"

text \<open>
  \<^verbatim>\<open>detect_outliers_iqr\<close>: the mask \<^verbatim>\<open>(series < lower_bound) | (series > upper_bound)\<close>.
  A comparison with NaN on either side is false.
\<close>

definition detect_outliers_iqr :: "real option list \<Rightarrow> real \<Rightarrow> bool list" where
  "detect_outliers_iqr series multiplier =
     (case iqr_bounds series multiplier of
        None \<Rightarrow> map (\<lambda>_. False) series
      | Some (lower_bound, upper_bound) \<Rightarrow>
          map (\<lambda>v. case v of None \<Rightarrow> False
                   | Some x \<Rightarrow> x < lower_bound \<or> x > upper_bound) series)"

text \<open>
  The two \<^verbatim>\<open>np.where\<close> assignments of the cap branch, in the source's order:
  first the values below the lower bound, then the values above the upper bound.
\<close>

definition cap_values :: "real \<Rightarrow> real \<Rightarrow> real option list \<Rightarrow> real option list" where
  "cap_values lower_bound upper_bound series =
     map (map_option (\<lambda>x. if x > upper_bound then upper_bound else x))
       (map (map_option (\<lambda>x. if x < lower_bound then lower_bound else x)) series)"

text \<open>Python's \<^verbatim>\<open>round(x, 2)\<close>: to two decimals, ties to even.\<close>

definition round_half_even :: "real \<Rightarrow> int" where
  "round_half_even y =
     (let f = \<lfloor>y\<rfloor>; d = y - of_int f in
      if d < 1/2 then f else if d > 1/2 then f + 1 else if even f then f else f + 1)"

definition round2 :: "real \<Rightarrow> real" where
  "round2 x = of_int (round_half_even (x * 100)) / 100"

text \<open>
  The record \<^verbatim>\<open>handle_outliers\<close> stores per column (lines 322-326). The count is a
  numpy integer, so the division by \<^verbatim>\<open>len(df) = 0\<close> gives NaN instead of raising.
\<close>

definition outlier_record :: "nat \<Rightarrow> nat \<Rightarrow> string \<Rightarrow> pydict" where
  "outlier_record outlier_count n method =
     [(''outlier_count'', PInt (int outlier_count)),
      (''outlier_percentage'',
         if n = 0 then PNaN else PFloat (round2 (real outlier_count / real n * 100))),
      (''method_applied'', PStr (if outlier_count > 0 then method else ''none''))]"

text \<open>
  The body of \<^verbatim>\<open>if outlier_count > 0:\<close> (lines 306-320) for one column: the cap
  branch writes the capped column back, the remove branch keeps the rows that are not
  flagged, any other method leaves the frame as it is.
\<close>

definition outlier_count_of :: "real option list \<Rightarrow> real \<Rightarrow> nat" where
  "outlier_count_of series multiplier =
     length (filter (\<lambda>b. b) (detect_outliers_iqr series multiplier))"

definition treat_outliers ::
  "string \<Rightarrow> real \<Rightarrow> string \<Rightarrow> real option list \<Rightarrow> dataframe \<Rightarrow> dataframe" where
  "treat_outliers method multiplier col series df_clean =
     (if outlier_count_of series multiplier > 0 then
        (if method = ''cap'' then
           (case iqr_bounds series multiplier of
              Some (lower_bound, upper_bound) \<Rightarrow>
                AList.update col (Numeric (cap_values lower_bound upper_bound series)) df_clean
            | None \<Rightarrow> df_clean)
         else if method = ''remove'' then
           filter_rows (map Not (detect_outliers_iqr series multiplier)) df_clean
         else df_clean)
      else df_clean)"

text \<open>
  \<^verbatim>\<open>handle_outliers\<close>: the loop over \<^verbatim>\<open>numeric_cols\<close>, threading \<^verbatim>\<open>df_clean\<close> and
  \<^verbatim>\<open>outlier_info\<close>. \<open>n\<close> is \<^verbatim>\<open>len(df)\<close> of the frame the function was called with.
  A column name that is not in the frame raises KeyError; the quantile of a column that
  is not numeric raises TypeError.
\<close>

fun handle_outliers_loop ::
  "nat \<Rightarrow> string \<Rightarrow> real \<Rightarrow> string list \<Rightarrow> dataframe \<Rightarrow> (string \<times> pydict) list
   \<Rightarrow> error + (dataframe \<times> (string \<times> pydict) list)" where
  "handle_outliers_loop n method multiplier [] df_clean outlier_info =
     Inr (df_clean, outlier_info)"
| "handle_outliers_loop n method multiplier (col # cols) df_clean outlier_info =
     (case map_of df_clean col of
        None \<Rightarrow> Inl (KeyError col)
      | Some (Numeric series) \<Rightarrow>
          handle_outliers_loop n method multiplier cols
            (treat_outliers method multiplier col series df_clean)
            (AList.update col
               (outlier_record (outlier_count_of series multiplier) n method) outlier_info)
      | Some _ \<Rightarrow> Inl TypeError)"

definition handle_outliers ::
  "dataframe \<Rightarrow> string list \<Rightarrow> string \<Rightarrow> real
   \<Rightarrow> error + (dataframe \<times> (string \<times> pydict) list)" where
  "handle_outliers df numeric_cols method multiplier =
     handle_outliers_loop (nrows df) method multiplier numeric_cols df []"

section \<open>Feature engineering\<close>

text \<open>
  \<^verbatim>\<open>pd.cut(x, bins=[...], labels=[...])\<close> with the defaults \<^verbatim>\<open>right=True\<close> and
  \<^verbatim>\<open>include_lowest=False\<close>, which is how lines 417-419 and 425-427 call it: the label
  number \<open>i\<close> is given to the values of the interval \<open>(bins[i], bins[i+1]]\<close>, open on the
  left and closed on the right; a value outside every interval, or missing, gives NaN.
  The last edge of both calls is \<^verbatim>\<open>float('inf')\<close>.
\<close>

datatype edge = Fin real | PosInf

fun edge_less :: "edge \<Rightarrow> real \<Rightarrow> bool" where
  "edge_less (Fin a) x = (a < x)"
| "edge_less PosInf x = False"

fun le_edge :: "real \<Rightarrow> edge \<Rightarrow> bool" where
  "le_edge x (Fin b) = (x \<le> b)"
| "le_edge x PosInf = True"

fun cut_value :: "edge list \<Rightarrow> string list \<Rightarrow> real \<Rightarrow> string option" where
  "cut_value (lo # hi # bins) (label # labels) x =
     (if edge_less lo x \<and> le_edge x hi then Some label
      else cut_value (hi # bins) labels x)"
| "cut_value _ _ x = None"

text \<open>
  A numeric view of a column: \<^verbatim>\<open>pd.cut\<close> and the arithmetic of pandas read a bool
  column as 0 and 1; a text or categorical column has no such view.
\<close>

fun as_reals :: "column \<Rightarrow> real option list option" where
  "as_reals (Numeric xs) = Some xs"
| "as_reals (Boolean bs) = Some (map (\<lambda>b. Some (if b then 1 else 0)) bs)"
| "as_reals _ = None"

definition pd_cut :: "edge list \<Rightarrow> string list \<Rightarrow> column \<Rightarrow> error + column" where
  "pd_cut bins labels c =
     (case as_reals c of
        None \<Rightarrow> Inl TypeError
      | Some xs \<Rightarrow>
          Inr (Category labels
                 (map (\<lambda>v. case v of None \<Rightarrow> None | Some x \<Rightarrow> cut_value bins labels x) xs)))"

definition bmi_bins :: "edge list" where
  "bmi_bins = [Fin 0, Fin (37/2), Fin 25, Fin 30, Fin 35, PosInf]"

definition bmi_labels :: "string list" where
  "bmi_labels = [''underweight'', ''normal'', ''overweight'', ''obese_1'', ''obese_2'']"

definition age_bins :: "edge list" where
  "age_bins = [Fin 0, Fin 35, Fin 45, Fin 65, PosInf]"

definition age_labels :: "string list" where
  "age_labels = [''low_risk'', ''moderate_risk'', ''high_risk'', ''very_high_risk'']"

text \<open>
  \<^verbatim>\<open>df[names].sum(axis=1)\<close>: the sum of each row over the named columns, a missing cell
  counting as nothing (\<^verbatim>\<open>skipna=True\<close>). The model gives the sum for numeric and bool
  columns, in exact arithmetic, and raises TypeError when one of the columns holds text,
  where pandas would add the text cells as strings; the sum of 64-bit integers that
  overflows wraps in pandas and does not in the model.
\<close>

definition add_skipna :: "real list \<Rightarrow> real option list \<Rightarrow> real list" where
  "add_skipna acc xs = map2 (\<lambda>a v. a + (case v of None \<Rightarrow> 0 | Some x \<Rightarrow> x)) acc xs"

fun sum_axis1_loop :: "dataframe \<Rightarrow> string list \<Rightarrow> real list \<Rightarrow> error + real list" where
  "sum_axis1_loop df [] acc = Inr acc"
| "sum_axis1_loop df (name # names) acc =
     (case map_of df name of
        None \<Rightarrow> Inl (KeyError name)
      | Some c \<Rightarrow>
          (case as_reals c of
             None \<Rightarrow> Inl TypeError
           | Some xs \<Rightarrow> sum_axis1_loop df names (add_skipna acc xs)))"

definition sum_axis1 :: "dataframe \<Rightarrow> string list \<Rightarrow> error + column" where
  "sum_axis1 df names =
     bind (sum_axis1_loop df names (replicate (nrows df) 0))
       (\<lambda>totals. Inr (Numeric (map Some totals)))"

text \<open>
  \<^verbatim>\<open>series.map(activity_map).fillna(0)\<close>: a text cell is looked up in the dictionary;
  every other cell (a missing one, a number, a text that is no key) becomes 0.
\<close>

definition activity_map :: "string \<Rightarrow> real option" where
  "activity_map s =
     (if s = ''low'' then Some 0 else if s = ''moderate'' then Some 1
      else if s = ''high'' then Some 2 else None)"

definition map_fillna :: "(string \<Rightarrow> real option) \<Rightarrow> real \<Rightarrow> column \<Rightarrow> real option list" where
  "map_fillna m dflt c =
     (case c of
        Object xs \<Rightarrow>
          map (\<lambda>v. case v of None \<Rightarrow> Some dflt
                   | Some s \<Rightarrow> (case m s of None \<Rightarrow> Some dflt | Some r \<Rightarrow> Some r)) xs
      | Category cats xs \<Rightarrow>
          map (\<lambda>v. case v of None \<Rightarrow> Some dflt
                   | Some s \<Rightarrow> (case m s of None \<Rightarrow> Some dflt | Some r \<Rightarrow> Some r)) xs
      | Numeric xs \<Rightarrow> map (\<lambda>_. Some dflt) xs
      | Boolean bs \<Rightarrow> map (\<lambda>_. Some dflt) bs)"

text \<open>
  The lambda of line 452. Python reads it as
  \<^verbatim>\<open>2 if 7 <= x <= 9 else ((1 if 6 <= x <= 10 else 0) if pd.notna(x) else 0)\<close>; on NaN
  the first comparison is false and the last branch gives 0.
\<close>

definition sleep_score :: "real option \<Rightarrow> real" where
  "sleep_score v =
     (case v of
        None \<Rightarrow> 0
      | Some x \<Rightarrow> if 7 \<le> x \<and> x \<le> 9 then 2 else if 6 \<le> x \<and> x \<le> 10 then 1 else 0)"

text \<open>
  \<^verbatim>\<open>series.apply\<close> of that lambda: comparing a number with a text cell raises TypeError;
  the missing cells of a text column are NaN and give 0.
\<close>

definition sleep_quality :: "column \<Rightarrow> error + column" where
  "sleep_quality c =
     (case c of
        Object xs \<Rightarrow>
          if \<forall>v\<in>set xs. v = None then Inr (Numeric (map (\<lambda>_. Some 0) xs)) else Inl TypeError
      | Category cats xs \<Rightarrow>
          if \<forall>v\<in>set xs. v = None then Inr (Numeric (map (\<lambda>_. Some 0) xs)) else Inl TypeError
      | _ \<Rightarrow>
          (case as_reals c of
             None \<Rightarrow> Inl TypeError
           | Some xs \<Rightarrow> Inr (Numeric (map (\<lambda>v. Some (sleep_score v)) xs))))"

definition urban_risk_map :: "string \<Rightarrow> real option" where
  "urban_risk_map s =
     (if s = ''urban'' then Some (11/10) else if s = ''rural'' then Some (9/10) else None)"

text \<open>The product of line 466-467; a missing factor gives a missing product.\<close>

definition location_risk :: "column \<Rightarrow> column \<Rightarrow> error + column" where
  "location_risk environmental_risk urban_rural =
     (case as_reals environmental_risk of
        None \<Rightarrow> Inl TypeError
      | Some xs \<Rightarrow>
          Inr (Numeric (map2 (\<lambda>x m. case (x, m) of (Some a, Some b) \<Rightarrow> Some (a * b) | _ \<Rightarrow> None)
                          xs (map_fillna urban_risk_map 1 urban_rural))))"

text \<open>
  The steps of \<^verbatim>\<open>feature_engineering\<close>. Each tests the columns of the frame it was
  called with (\<^verbatim>\<open>df\<close>) and writes to the copy (\<^verbatim>\<open>df_engineered\<close>), appending to
  \<^verbatim>\<open>new_features\<close>. Reading a column of the copy that it does not have raises KeyError.
\<close>

type_synonym fe_state = "dataframe \<times> string list"

definition fe_bmi :: "dataframe \<Rightarrow> fe_state \<Rightarrow> error + fe_state" where
  "fe_bmi df st =
     (case st of (df_engineered, new_features) \<Rightarrow>
        if has_column df ''bmi'' then
          bind (get_column df_engineered ''bmi'') (\<lambda>c.
          bind (pd_cut bmi_bins bmi_labels c) (\<lambda>r.
            Inr (AList.update ''bmi_risk_level'' r df_engineered,
                 new_features @ [''bmi_risk_level''])))
        else Inr st)"

definition fe_age :: "dataframe \<Rightarrow> fe_state \<Rightarrow> error + fe_state" where
  "fe_age df st =
     (case st of (df_engineered, new_features) \<Rightarrow>
        if has_column df ''age'' then
          bind (get_column df_engineered ''age'') (\<lambda>c.
          bind (pd_cut age_bins age_labels c) (\<lambda>r.
            Inr (AList.update ''age_diabetes_risk'' r df_engineered,
                 new_features @ [''age_diabetes_risk''])))
        else Inr st)"

definition health_indicators :: "string list" where
  "health_indicators = [''hypertension'', ''heart_disease'', ''family_history'']"

definition fe_health :: "dataframe \<Rightarrow> fe_state \<Rightarrow> error + fe_state" where
  "fe_health df st =
     (case st of (df_engineered, new_features) \<Rightarrow>
        (let available_indicators = filter (has_column df) health_indicators in
         if available_indicators \<noteq> [] then
           bind (sum_axis1 df_engineered available_indicators) (\<lambda>r.
             Inr (AList.update ''health_risk_score'' r df_engineered,
                  new_features @ [''health_risk_score'']))
         else Inr st))"

text \<open>
  Steps 4 (lines 438-460): \<^verbatim>\<open>lifestyle_factors\<close> is local to them, so they are one
  step of the model.
\<close>

definition fe_lifestyle :: "dataframe \<Rightarrow> fe_state \<Rightarrow> error + fe_state" where
  "fe_lifestyle df st =
     (case st of (df0, nf0) \<Rightarrow>
        bind (if has_column df ''physical_activity'' then
                bind (get_column df0 ''physical_activity'') (\<lambda>c.
                  Inr (AList.update ''activity_score'' (Numeric (map_fillna activity_map 0 c)) df0,
                       nf0 @ [''activity_score''], [''activity_score'']))
              else Inr (df0, nf0, [])) (\<lambda>(df1, nf1, lf1).
        bind (if has_column df ''sleep_hours'' then
                bind (get_column df1 ''sleep_hours'') (\<lambda>c.
                bind (sleep_quality c) (\<lambda>r.
                  Inr (AList.update ''sleep_quality'' r df1,
                       nf1 @ [''sleep_quality''], lf1 @ [''sleep_quality''])))
              else Inr (df1, nf1, lf1)) (\<lambda>(df2, nf2, lifestyle_factors).
        if lifestyle_factors \<noteq> [] then
          bind (sum_axis1 df2 lifestyle_factors) (\<lambda>r.
            Inr (AList.update ''lifestyle_score'' r df2, nf2 @ [''lifestyle_score'']))
        else Inr (df2, nf2))))"

definition fe_location :: "dataframe \<Rightarrow> fe_state \<Rightarrow> error + fe_state" where
  "fe_location df st =
     (case st of (df_engineered, new_features) \<Rightarrow>
        if has_column df ''environmental_risk'' \<and> has_column df ''urban_rural'' then
          bind (get_column df_engineered ''environmental_risk'') (\<lambda>env.
          bind (get_column df_engineered ''urban_rural'') (\<lambda>ur.
          bind (location_risk env ur) (\<lambda>r.
            Inr (AList.update ''location_risk'' r df_engineered,
                 new_features @ [''location_risk'']))))
        else Inr st)"

text \<open>\<^verbatim>\<open>feature_engineering(df, target_col)\<close>; the target is not used by its body.\<close>

definition feature_engineering :: "dataframe \<Rightarrow> string option \<Rightarrow> error + fe_state" where
  "feature_engineering df target_col =
     bind (fe_bmi df (df, [])) (\<lambda>s1.
     bind (fe_age df s1) (\<lambda>s2.
     bind (fe_health df s2) (\<lambda>s3.
     bind (fe_lifestyle df s3) (\<lambda>s4.
     fe_location df s4))))"

text \<open>
  The bucketing of \<^verbatim>\<open>preprocess_input\<close> in \<^verbatim>\<open>services/app/services/prediction.py\<close>
  (lines 179-188), which computes the same feature for a live request.
\<close>

definition serving_bmi_risk :: "real \<Rightarrow> string" where
  "serving_bmi_risk bmi =
     (if 25 \<le> bmi \<and> bmi < 30 then ''overweight''
      else if 30 \<le> bmi \<and> bmi < 35 then ''obese_1''
      else if bmi \<ge> 35 then ''obese_2''
      else if bmi < 37/2 then ''underweight''
      else ''normal'')"

section \<open>High-cardinality categorical columns\<close>

text \<open>\<^verbatim>\<open>series.nunique()\<close>: the number of distinct values that are not missing.\<close>

definition nunique :: "column \<Rightarrow> nat" where
  "nunique c = length (remdups (dropna (keys_of c)))"

text \<open>
  \<^verbatim>\<open>series.value_counts().head(n).index.tolist()\<close>: the \<open>n\<close> most frequent values, the
  most frequent first. The model keeps values of equal count in the order of their first
  appearance; pandas does not promise an order for them, so which of several values of
  equal count are among the first \<open>n\<close> can differ.
\<close>

definition value_counts :: "string option list \<Rightarrow> string list" where
  "value_counts xs =
     (let vals = dropna xs in
      rev (sort_key (count_list vals) (rev (unique vals))))"

definition group_other :: "string list \<Rightarrow> string option list \<Rightarrow> string option list" where
  "group_other top_categories xs =
     map (\<lambda>v. case v of
              Some s \<Rightarrow> if s \<in> set top_categories then Some s else Some ''Other''
            | None \<Rightarrow> Some ''Other'') xs"

definition frequency_record :: "nat \<Rightarrow> nat \<Rightarrow> pydict" where
  "frequency_record kept unique_count =
     [(''method'', PStr ''frequency_grouping''),
      (''kept_categories'', PInt (int kept)),
      (''original_categories'', PInt (int unique_count))]"

definition target_encoding_record :: "string \<Rightarrow> nat \<Rightarrow> pydict" where
  "target_encoding_record new_column unique_count =
     [(''method'', PStr ''target_encoding''),
      (''new_column'', PStr new_column),
      (''original_categories'', PInt (int unique_count))]"

text \<open>
  The body of the loop of \<^verbatim>\<open>handle_high_cardinality_categorical\<close> for one column.
  \<open>target_encoder\<close> is scikit-learn's \<^verbatim>\<open>TargetEncoder().fit_transform\<close>, given the cells
  of the column and the target column; it is outside the repository (and cross-fits on
  shuffled folds), so the model takes it as a parameter. The grouping is modelled for
  text columns, which is what the pipeline passes; on another dtype the model raises
  TypeError.
\<close>

type_synonym target_encoder = "string option list \<Rightarrow> column \<Rightarrow> error + real option list"

definition frequency_grouping ::
  "nat \<Rightarrow> string \<Rightarrow> column \<Rightarrow> imp_state \<Rightarrow> error + imp_state" where
  "frequency_grouping max_categories col c st =
     (case st of (df_processed, encoding_info) \<Rightarrow>
        (case c of
           Object xs \<Rightarrow>
             (let top_categories = take max_categories (value_counts xs) in
              Inr (AList.update col (Object (group_other top_categories xs)) df_processed,
                   AList.update col (frequency_record (length top_categories + 1) (nunique c))
                     encoding_info))
         | _ \<Rightarrow> Inl TypeError))"

definition high_cardinality_step ::
  "target_encoder \<Rightarrow> dataframe \<Rightarrow> string option \<Rightarrow> nat \<Rightarrow> string \<Rightarrow> imp_state
   \<Rightarrow> error + imp_state" where
  "high_cardinality_step target_encoder df target_col max_categories col st =
     (case st of (df_processed, encoding_info) \<Rightarrow>
      bind (get_column df_processed col) (\<lambda>c.
        if nunique c > max_categories then
          (if col = ''location'' then frequency_grouping max_categories col c st
           else if truthy target_col \<and> has_column df (the target_col) then
             (case c of
                Object xs \<Rightarrow>
                  bind (get_column df_processed (the target_col)) (\<lambda>y.
                  bind (target_encoder xs y) (\<lambda>encoded.
                    Inr (AList.update (col @ ''_target_encoded'') (Numeric encoded) df_processed,
                         AList.update col
                           (target_encoding_record (col @ ''_target_encoded'') (nunique c))
                           encoding_info)))
              | _ \<Rightarrow> Inl TypeError)
           else frequency_grouping max_categories col c st)
        else Inr st))"

definition handle_high_cardinality_categorical ::
  "target_encoder \<Rightarrow> dataframe \<Rightarrow> string list \<Rightarrow> string option \<Rightarrow> nat \<Rightarrow> error + imp_state" where
  "handle_high_cardinality_categorical target_encoder df categorical_cols target_col
       max_categories =
     for_each (high_cardinality_step target_encoder df target_col max_categories)
       categorical_cols (df, [])"

section \<open>Encoding and scaling\<close>

text \<open>
  \<^verbatim>\<open>pd.get_dummies(df, columns=..., drop_first=False)\<close>: the columns that are not
  encoded keep their place; behind them come, for each encoded column in the order of
  the list, one indicator column per value, named \<^verbatim>\<open>column_value\<close>, the values sorted
  (for a categorical column: its categories). An indicator is true in the rows that hold
  the value; a missing cell is false in all of them. Indicators are bool columns (0/1
  integers in pandas 1). A listed column that the frame does not have raises KeyError.
\<close>

definition dummy_columns :: "(string \<Rightarrow> real \<Rightarrow> string) \<Rightarrow> string \<Rightarrow> column \<Rightarrow> dataframe" where
  "dummy_columns fmt name c =
     (case c of
        Object xs \<Rightarrow>
          map (\<lambda>v. (name @ ''_'' @ v, Boolean (map (\<lambda>x. x = Some v) xs)))
            (sort (remdups (dropna xs)))
      | Category cats xs \<Rightarrow>
          map (\<lambda>v. (name @ ''_'' @ v, Boolean (map (\<lambda>x. x = Some v) xs))) cats
      | Numeric xs \<Rightarrow>
          map (\<lambda>v. (name @ ''_'' @ fmt name v, Boolean (map (\<lambda>x. x = Some v) xs)))
            (sort (remdups (dropna xs)))
      | Boolean bs \<Rightarrow>
          map (\<lambda>v. (name @ ''_'' @ (if v then ''True'' else ''False''),
                     Boolean (map (\<lambda>x. x = v) bs)))
            (sort (remdups bs)))"

definition get_dummies ::
  "(string \<Rightarrow> real \<Rightarrow> string) \<Rightarrow> dataframe \<Rightarrow> string list \<Rightarrow> error + dataframe" where
  "get_dummies fmt df columns =
     (case find (\<lambda>name. map_of df name = None) columns of
        Some name \<Rightarrow> Inl (KeyError name)
      | None \<Rightarrow>
          Inr (filter (\<lambda>(name, c). name \<notin> set columns) df @
               concat (map (\<lambda>name. case map_of df name of
                                      Some c \<Rightarrow> dummy_columns fmt name c
                                    | None \<Rightarrow> []) columns)))"

text \<open>
  scikit-learn's \<^verbatim>\<open>StandardScaler\<close> on one column: \<^verbatim>\<open>mean_\<close> is the mean of the values
  that are not missing, \<^verbatim>\<open>scale_\<close> the square root of their population variance, and 1
  for a constant column; both are NaN when the column has no value. \<^verbatim>\<open>transform\<close>
  subtracts the mean and divides by the scale, and leaves a missing cell missing.
\<close>

definition fit_column :: "real option list \<Rightarrow> real option \<times> real option" where
  "fit_column xs =
     (let vals = dropna xs in
      if vals = [] then (None, None)
      else
        (let m = sum_list vals / real (length vals);
             var = sum_list (map (\<lambda>x. (x - m)\<^sup>2) vals) / real (length vals)
         in (Some m, Some (if var = 0 then 1 else sqrt var))))"

definition transform_column :: "real option \<times> real option \<Rightarrow> real option list \<Rightarrow> real option list" where
  "transform_column p xs =
     (case p of
        (Some m, Some s) \<Rightarrow> map (map_option (\<lambda>x. (x - m) / s)) xs
      | _ \<Rightarrow> map (\<lambda>_. None) xs)"

text \<open>The column that \<^verbatim>\<open>fit_transform\<close> puts in the place of a column.\<close>

definition standardized :: "real option list \<Rightarrow> column" where
  "standardized xs = Numeric (transform_column (fit_column xs) xs)"

text \<open>
  A fitted scaler: the fields \<^verbatim>\<open>feature_names_in_\<close>, \<^verbatim>\<open>mean_\<close> and \<^verbatim>\<open>scale_\<close>
  (written without the trailing underscore).
\<close>

record scaler =
  feature_names_in :: "string list"
  mean :: "real option list"
  scale :: "real option list"

text \<open>
  \<^verbatim>\<open>df[names]\<close> read as a numeric array, which is what \<^verbatim>\<open>fit\<close> and
  \<^verbatim>\<open>fit_transform\<close> do first: KeyError for a name the frame does not have, ValueError
  for a text column and for a frame without rows.
\<close>

fun numeric_array :: "dataframe \<Rightarrow> string list \<Rightarrow> error + real option list list" where
  "numeric_array df [] = Inr []"
| "numeric_array df (name # names) =
     (case map_of df name of
        None \<Rightarrow> Inl (KeyError name)
      | Some c \<Rightarrow>
          (case as_reals c of
             None \<Rightarrow> Inl ValueError
           | Some xs \<Rightarrow> bind (numeric_array df names) (\<lambda>rest. Inr (xs # rest))))"

definition fit :: "dataframe \<Rightarrow> string list \<Rightarrow> error + scaler" where
  "fit df names =
     bind (numeric_array df names) (\<lambda>cols.
       if nrows df = 0 then Inl ValueError
       else Inr \<lparr>feature_names_in = names,
                 mean = map (fst \<circ> fit_column) cols,
                 scale = map (snd \<circ> fit_column) cols\<rparr>)"

text \<open>
  Line 641, \<^verbatim>\<open>df_ml[names] = scaler.fit_transform(df_ml[names])\<close>: every named column
  is replaced by its standardized values.
\<close>

definition fit_transform_assign :: "dataframe \<Rightarrow> string list \<Rightarrow> error + (dataframe \<times> scaler)" where
  "fit_transform_assign df names =
     bind (fit df names) (\<lambda>sc.
     bind (numeric_array df names) (\<lambda>cols.
       Inr (fold (\<lambda>(name, xs) acc.
                    AList.update name (standardized xs) acc)
              (zip names cols) df,
            sc)))"

section \<open>Feature selection\<close>

definition protected_terms :: "string list" where
  "protected_terms = [''gestational'', ''pregnancy'', ''hba1c'', ''glucose'', ''bmi'', ''age'']"

text \<open>Line 659-660: \<^verbatim>\<open>any(term in col.lower() for term in [...])\<close>.\<close>

definition is_protected :: "string \<Rightarrow> bool" where
  "is_protected col = list_ex (\<lambda>term. contains (lower col) term) protected_terms"

text \<open>\<^verbatim>\<open>df[names]\<close>: the named columns, in the order of the names.\<close>

definition select_columns :: "dataframe \<Rightarrow> string list \<Rightarrow> dataframe" where
  "select_columns df names =
     List.map_filter (\<lambda>name. map_option (\<lambda>c. (name, c)) (map_of df name)) names"

text \<open>A row of \<^verbatim>\<open>feature_selection_report.csv\<close>.\<close>

record feature_score =
  feature :: string
  score :: "real option"
  selected :: bool
  protected :: bool

text \<open>
  \<^verbatim>\<open>sort_values('score', ascending=False)\<close>: the highest score first, the rows
  without a score (NaN) last. The model keeps rows of equal score in their order; the
  default sort of pandas is not stable, so the order of such rows can differ.
\<close>

definition sort_by_score :: "feature_score list \<Rightarrow> feature_score list" where
  "sort_by_score rows =
     sort_key (\<lambda>r. - (case score r of Some s \<Rightarrow> s | None \<Rightarrow> 0))
       (filter (\<lambda>r. score r \<noteq> None) rows) @
     filter (\<lambda>r. score r = None) rows"

text \<open>
  scikit-learn's \<^verbatim>\<open>SelectKBest(score_func=f_classif, k=k)\<close>, fitted on the selectable
  columns and the target: it gives \<^verbatim>\<open>scores_\<close> and \<^verbatim>\<open>get_support()\<close>, or raises. It
  is outside the repository, so the model takes it as a parameter.
\<close>

type_synonym selector = "dataframe \<Rightarrow> column \<Rightarrow> nat \<Rightarrow> error + (real option list \<times> bool list)"

text \<open>
  The lists of lines 651-663, computed from the table and the name of the target:
  \<^verbatim>\<open>X\<close> is the table without the target column.
\<close>

definition features_of :: "dataframe \<Rightarrow> string \<Rightarrow> dataframe" where
  "features_of df_ml target = filter (\<lambda>(name, c). name \<noteq> target) df_ml"

definition numeric_feature_cols :: "dataframe \<Rightarrow> string \<Rightarrow> string list" where
  "numeric_feature_cols df_ml target =
     map fst (filter (\<lambda>(name, c). is_numeric_dtype c) (features_of df_ml target))"

definition categorical_feature_cols :: "dataframe \<Rightarrow> string \<Rightarrow> string list" where
  "categorical_feature_cols df_ml target =
     map fst (filter (\<lambda>(name, c). \<not> is_numeric_dtype c) (features_of df_ml target))"

definition protected_features :: "dataframe \<Rightarrow> string \<Rightarrow> string list" where
  "protected_features df_ml target = filter is_protected (map fst (features_of df_ml target))"

definition protected_numeric :: "dataframe \<Rightarrow> string \<Rightarrow> string list" where
  "protected_numeric df_ml target =
     filter (\<lambda>col. col \<in> set (numeric_feature_cols df_ml target))
       (protected_features df_ml target)"

definition selectable_numeric :: "dataframe \<Rightarrow> string \<Rightarrow> string list" where
  "selectable_numeric df_ml target =
     filter (\<lambda>col. col \<notin> set (protected_numeric df_ml target))
       (numeric_feature_cols df_ml target)"

text \<open>Lines 681-696: the rows of the report, the protected features first, then sorted.\<close>

definition selection_report ::
  "string list \<Rightarrow> string list \<Rightarrow> real option list \<Rightarrow> bool list \<Rightarrow> feature_score list" where
  "selection_report protected_cols selectable_cols scores support =
     (let feature_scores =
            map (\<lambda>(f, s, b). \<lparr>feature = f, score = s, selected = b, protected = False\<rparr>)
              (zip selectable_cols (zip scores support));
          protected_df =
            map (\<lambda>f. \<lparr>feature = f, score = Some 999, selected = True, protected = True\<rparr>)
              protected_cols
      in sort_by_score (protected_df @ feature_scores))"

text \<open>
  Lines 665-699, the branch that selects. Indexing the names with a mask of another
  length raises IndexError, building the report from columns of different lengths
  ValueError.
\<close>

definition apply_selection ::
  "selector \<Rightarrow> dataframe \<Rightarrow> string
   \<Rightarrow> error + (dataframe \<times> bool \<times> feature_score list option)" where
  "apply_selection select_k_best df_ml target =
     (let k_selectable = max 1 (min 15 (length (selectable_numeric df_ml target))) in
      bind (get_column df_ml target) (\<lambda>y.
      bind (select_k_best
              (select_columns (features_of df_ml target) (selectable_numeric df_ml target))
              y k_selectable)
        (\<lambda>(scores, support).
           if length support \<noteq> length (selectable_numeric df_ml target) then Inl IndexError
           else if length scores \<noteq> length (selectable_numeric df_ml target) then Inl ValueError
           else
             (let selected_selectable_features =
                    select_mask support (selectable_numeric df_ml target);
                  selected_features =
                    protected_numeric df_ml target @ selected_selectable_features @
                    categorical_feature_cols df_ml target @ [target]
              in Inr (select_columns df_ml selected_features, True,
                      Some (selection_report (protected_numeric df_ml target)
                              (selectable_numeric df_ml target) scores support))))))"

text \<open>
  Step 10 of \<^verbatim>\<open>enhanced_preprocessing\<close> (lines 644-703) on the encoded and scaled
  table. It returns the table, \<^verbatim>\<open>feature_selection_applied\<close> and the rows written to
  \<^verbatim>\<open>feature_selection_report.csv\<close>, if it is written.
\<close>

definition feature_selection ::
  "selector \<Rightarrow> dataframe \<Rightarrow> string option
   \<Rightarrow> error + (dataframe \<times> bool \<times> feature_score list option)" where
  "feature_selection select_k_best df_ml target_col =
     (if truthy target_col \<and> has_column df_ml (the target_col) \<and> length df_ml > 50 then
        (if selectable_numeric df_ml (the target_col) \<noteq> [] \<and>
            length (numeric_feature_cols df_ml (the target_col)) > 30
         then apply_selection select_k_best df_ml (the target_col)
         else Inr (df_ml, False, None))
      else Inr (df_ml, False, None))"

text \<open>
  A table of 52 columns for the examples: the target, 26 numeric columns whose names hold
  the protected term \<^verbatim>\<open>age\<close>, and 25 other numeric columns.
\<close>

definition wide_table :: dataframe where
  "wide_table =
     [(''diabetes'', Numeric [Some 0, Some 1])] @
     map (\<lambda>s. (''age_'' @ s, Numeric [Some 0, Some 1]))
       [''a'', ''b'', ''c'', ''d'', ''e'', ''f'', ''g'', ''h'', ''i'', ''j'', ''k'', ''l'', ''m'',
        ''n'', ''o'', ''p'', ''q'', ''r'', ''s'', ''t'', ''u'', ''v'', ''w'', ''x'', ''y'', ''z''] @
     map (\<lambda>s. (''x_'' @ s, Numeric [Some 1, Some 0]))
       [''a'', ''b'', ''c'', ''d'', ''e'', ''f'', ''g'', ''h'', ''i'', ''j'', ''k'', ''l'', ''m'',
        ''n'', ''o'', ''p'', ''q'', ''r'', ''s'', ''t'', ''u'', ''v'', ''w'', ''x'', ''y'']"

text \<open>A selector for the examples: every score is 1 and the first \<open>k\<close> columns are kept.\<close>

definition first_k :: selector where
  "first_k X y k =
     Inr (map (\<lambda>_. Some 1) X, map (\<lambda>i. i < k) [0..<length X])"

section \<open>The model-ready table\<close>

text \<open>Lines 616-617: the categorical columns that have no target-encoded companion.\<close>

definition categorical_for_encoding :: "dataframe \<Rightarrow> string list \<Rightarrow> string list" where
  "categorical_for_encoding df_ml categorical_cols =
     filter (\<lambda>col. \<not> list_ex (\<lambda>colname. contains colname (col @ ''_target_encoded''))
                        (map fst df_ml))
       categorical_cols"

text \<open>Lines 625-634, on the encoded table.\<close>

definition final_numeric_columns :: "dataframe \<Rightarrow> string list \<Rightarrow> string list" where
  "final_numeric_columns df_ml numeric_cols =
     (let target_encoded_cols = filter (\<lambda>col. contains col ''target_encoded'') (map fst df_ml)
      in filter (\<lambda>col. case map_of df_ml col of
                          Some c \<Rightarrow> is_numeric_dtype c
                        | None \<Rightarrow> False) numeric_cols
         @ target_encoded_cols)"

text \<open>
  Lines 706-724: the scaler that is saved to \<^verbatim>\<open>feature_scaler.pkl\<close>, a new
  \<^verbatim>\<open>StandardScaler\<close> fitted on the columns of the final table; nothing is saved when
  nothing was scaled or no scaled column is left.
\<close>

definition save_scaler ::
  "scaler option \<Rightarrow> dataframe \<Rightarrow> string list \<Rightarrow> string option \<Rightarrow> error + scaler option" where
  "save_scaler sc df_ml final_numeric_cols target_col =
     (if sc \<noteq> None then
        (let final_numeric_in_ml =
               filter (\<lambda>col. col \<in> set final_numeric_cols \<and> Some col \<noteq> target_col)
                 (map fst df_ml)
         in if final_numeric_in_ml \<noteq> [] then
              bind (fit df_ml final_numeric_in_ml) (\<lambda>final_scaler. Inr (Some final_scaler))
            else Inr None)
      else Inr None)"

text \<open>Step 8, lines 616-622: the one-hot encoding of those columns.\<close>

definition one_hot_encode ::
  "(string \<Rightarrow> real \<Rightarrow> string) \<Rightarrow> dataframe \<Rightarrow> string list \<Rightarrow> error + dataframe" where
  "one_hot_encode fmt df_clean categorical_cols =
     (if categorical_for_encoding df_clean categorical_cols \<noteq> [] then
        get_dummies fmt df_clean (categorical_for_encoding df_clean categorical_cols)
      else Inr df_clean)"

text \<open>Step 9, lines 637-642: the scaling of the numeric features, when there is one.\<close>

definition scale_numeric_features ::
  "dataframe \<Rightarrow> string list \<Rightarrow> error + (dataframe \<times> scaler option)" where
  "scale_numeric_features encoded numeric_cols =
     (if final_numeric_columns encoded numeric_cols \<noteq> [] then
        bind (fit_transform_assign encoded (final_numeric_columns encoded numeric_cols))
          (\<lambda>(scaled, sc). Inr (scaled, Some sc))
      else Inr (encoded, None))"

text \<open>
  Steps 8 to 10 and the saving of the scaler (lines 612-724), from the cleaned table
  \<^verbatim>\<open>df_clean\<close> and the two role lists as step 6 leaves them.
\<close>

record ml_ready =
  out_df_ml :: dataframe
  out_encoded_columns :: "string list"
  out_final_numeric_cols :: "string list"
  out_feature_selection_applied :: bool
  out_feature_selection_report :: "feature_score list option"
  out_feature_scaler :: "scaler option"

definition prepare_ml_ready ::
  "(string \<Rightarrow> real \<Rightarrow> string) \<Rightarrow> selector \<Rightarrow> dataframe \<Rightarrow> string list \<Rightarrow> string list
   \<Rightarrow> string option \<Rightarrow> error + ml_ready" where
  "prepare_ml_ready fmt select_k_best df_clean numeric_cols categorical_cols target_col =
     bind (one_hot_encode fmt df_clean categorical_cols) (\<lambda>encoded.
     bind (scale_numeric_features encoded numeric_cols) (\<lambda>(scaled, sc).
     bind (feature_selection select_k_best scaled target_col) (\<lambda>(final, applied, report).
     bind (save_scaler sc final (final_numeric_columns encoded numeric_cols) target_col)
       (\<lambda>saved.
          Inr \<lparr>out_df_ml = final,
               out_encoded_columns = categorical_for_encoding df_clean categorical_cols,
               out_final_numeric_cols = final_numeric_columns encoded numeric_cols,
               out_feature_selection_applied = applied,
               out_feature_selection_report = report,
               out_feature_scaler = saved\<rparr>))))"

section \<open>The pipeline\<close>

text \<open>
  \<^verbatim>\<open>df.drop_duplicates().reset_index(drop=True)\<close>: of equal rows the first is kept;
  two missing cells count as equal.
\<close>

definition rows_of :: "dataframe \<Rightarrow> key option list list" where
  "rows_of df = map (\<lambda>i. map (\<lambda>(name, c). keys_of c ! i) df) [0..<nrows df]"

fun first_occurrences :: "'a list \<Rightarrow> 'a list \<Rightarrow> bool list" where
  "first_occurrences seen [] = []"
| "first_occurrences seen (r # rs) = (r \<notin> set seen) # first_occurrences (r # seen) rs"

definition drop_duplicates :: "dataframe \<Rightarrow> dataframe" where
  "drop_duplicates df = filter_rows (first_occurrences [] (rows_of df)) df"

text \<open>
  Lines 589-593: the new features whose dtype is \<^verbatim>\<open>object\<close> join the categorical
  columns, all the others the numeric columns.
\<close>

definition extend_roles ::
  "dataframe \<Rightarrow> string list \<Rightarrow> string list \<Rightarrow> string list \<Rightarrow> string list \<times> string list" where
  "extend_roles df_clean new_features numeric_cols categorical_cols =
     (let new_categorical =
            filter (\<lambda>f. case map_of df_clean f of Some c \<Rightarrow> is_object c | None \<Rightarrow> False)
              new_features;
          new_numeric = filter (\<lambda>f. f \<notin> set new_categorical) new_features
      in (numeric_cols @ new_numeric, categorical_cols @ new_categorical))"

text \<open>Lines 732-744, the dictionary written to \<^verbatim>\<open>processing_summary.csv\<close>.\<close>

definition processing_summary ::
  "nat \<times> nat \<Rightarrow> dataframe \<Rightarrow> ml_ready \<Rightarrow> nat \<Rightarrow> string \<Rightarrow> string option \<Rightarrow> pydict" where
  "processing_summary initial_shape df_clean out new_features_created
       handle_outliers_method target_col =
     [(''original_rows'', PInt (int (fst initial_shape))),
      (''original_columns'', PInt (int (snd initial_shape))),
      (''final_rows'', PInt (int (nrows (out_df_ml out)))),
      (''final_columns'', PInt (int (length (out_df_ml out)))),
      (''duplicates_removed'', PInt (int (fst initial_shape) - int (nrows df_clean))),
      (''numeric_features'',
         PInt (int (length (filter (has_column (out_df_ml out)) (out_final_numeric_cols out))))),
      (''categorical_features_encoded'', PInt (int (length (out_encoded_columns out)))),
      (''new_features_created'', PInt (int new_features_created)),
      (''outlier_method'', PStr handle_outliers_method),
      (''feature_selection_applied'',
         PStr (if length (out_df_ml out) \<noteq> length df_clean then ''Yes'' else ''No'')),
      (''total_final_features'',
         PInt (int (length (out_df_ml out)) -
               (if target_col \<noteq> None \<and> has_column (out_df_ml out) (the target_col) then 1 else 0)))]"

text \<open>What a run writes: the reports, the two tables, the scaler and the summary.\<close>

record artifacts =
  imputation_report :: "(string \<times> pydict) list"
  outlier_treatment_report :: "(string \<times> pydict) list option"
  encoding_report :: "(string \<times> pydict) list option"
  readable :: dataframe
  model_ready :: ml_ready
  summary :: pydict

text \<open>
  \<^verbatim>\<open>enhanced_preprocessing\<close>. Naming the three columns of the imputation report (line
  570) raises ValueError when no column was imputed: the frame made of the empty
  dictionary has one column.
\<close>

definition enhanced_preprocessing ::
  "(string \<Rightarrow> real \<Rightarrow> string) \<Rightarrow> target_encoder \<Rightarrow> selector \<Rightarrow> dataframe \<Rightarrow> string option
   \<Rightarrow> string \<Rightarrow> bool \<Rightarrow> error + artifacts" where
  "enhanced_preprocessing fmt target_encoder select_k_best df target_col
       handle_outliers_method use_feature_engineering =
     (let initial_shape = (nrows df, length df);
          deduplicated = drop_duplicates df
      in case classify_columns fmt deduplicated target_col of
           (classified, numeric_cols, categorical_cols) \<Rightarrow>
      bind (enhanced_imputation classified numeric_cols categorical_cols target_col)
        (\<lambda>(imputed, imputation_info).
      bind (if imputation_info = [] then Inl ValueError else Inr ()) (\<lambda>_.
      bind (if numeric_cols \<noteq> [] \<and> handle_outliers_method \<noteq> ''none'' then
              bind (handle_outliers imputed numeric_cols handle_outliers_method (3/2))
                (\<lambda>(treated, outlier_info). Inr (treated, Some outlier_info))
            else Inr (imputed, None)) (\<lambda>(treated, outlier_info).
      bind (if use_feature_engineering then
              bind (feature_engineering treated target_col) (\<lambda>(engineered, new_features).
                case extend_roles engineered new_features numeric_cols categorical_cols of
                  (numeric_cols', categorical_cols') \<Rightarrow>
                    Inr (engineered, numeric_cols', categorical_cols', length new_features))
            else Inr (treated, numeric_cols, categorical_cols, 0))
        (\<lambda>(engineered, numeric_cols', categorical_cols', new_features_created).
      bind (handle_high_cardinality_categorical target_encoder engineered categorical_cols'
              target_col 15) (\<lambda>(df_clean, encoding_info).
      bind (prepare_ml_ready fmt select_k_best df_clean numeric_cols' categorical_cols'
              target_col) (\<lambda>out.
        Inr \<lparr>imputation_report = imputation_info,
             outlier_treatment_report = outlier_info,
             encoding_report = (if encoding_info \<noteq> [] then Some encoding_info else None),
             readable = df_clean,
             model_ready = out,
             summary = processing_summary initial_shape df_clean out new_features_created
                         handle_outliers_method target_col\<rparr>)))))))"

text \<open>
  A table for the examples: a text column of 16 different values and one missing cell,
  and the target. The encoder of the examples encodes every cell as 0.
\<close>

definition city_table :: dataframe where
  "city_table =
     [(''city'', Object
        [Some ''c01'', Some ''c02'', Some ''c03'', Some ''c04'', Some ''c05'',
         Some ''c06'', Some ''c07'', Some ''c08'', Some ''c09'', Some ''c10'',
         Some ''c11'', Some ''c12'', Some ''c13'', Some ''c14'', Some ''c15'',
         Some ''c16'', None]),
      (''diabetes'', Numeric
        [Some 0, Some 1, Some 0, Some 1, Some 0, Some 1, Some 0, Some 1, Some 0,
         Some 1, Some 0, Some 1, Some 0, Some 1, Some 0, Some 1, Some 0])]"

definition zero_encoder :: target_encoder where
  "zero_encoder xs y = Inr (map (\<lambda>_. Some 0) xs)"

text \<open>
  The same table after the imputation, which fills the missing cell with the mode, and
  after step 6, which adds the target encoding.
\<close>

definition city_imputed :: dataframe where
  "city_imputed =
     [(''city'', Object
        [Some ''c01'', Some ''c02'', Some ''c03'', Some ''c04'', Some ''c05'',
         Some ''c06'', Some ''c07'', Some ''c08'', Some ''c09'', Some ''c10'',
         Some ''c11'', Some ''c12'', Some ''c13'', Some ''c14'', Some ''c15'',
         Some ''c16'', Some ''c01'']),
      (''diabetes'', Numeric
        [Some 0, Some 1, Some 0, Some 1, Some 0, Some 1, Some 0, Some 1, Some 0,
         Some 1, Some 0, Some 1, Some 0, Some 1, Some 0, Some 1, Some 0])]"

definition city_clean :: dataframe where
  "city_clean =
     city_imputed @
     [(''city_target_encoded'', Numeric
        [Some 0, Some 0, Some 0, Some 0, Some 0, Some 0, Some 0, Some 0, Some 0,
         Some 0, Some 0, Some 0, Some 0, Some 0, Some 0, Some 0, Some 0])]"

section \<open>The prediction service\<close>



text \<open>
  A loaded model is its \<^verbatim>\<open>predict_proba\<close>, read at \<^verbatim>\<open>[0][1]\<close>: from the one-row
  frame of features to the probability of the positive class, or an exception. The
  models are XGBoost classifiers stored outside the repository.
\<close>

type_synonym model = "(string \<times> pyval) list \<Rightarrow> error + real"

record service =
  women_model :: "model option"
  men_model :: "model option"
  women_features :: "string list option"
  men_features :: "string list option"
  feature_scaler :: "scaler option"


text \<open>
  The request, as \<^verbatim>\<open>PredictionRequest\<close> types the keys that \<^verbatim>\<open>preprocess_input\<close>
  reads: numbers for age, height and weight, text for gender, smoking and the
  gestational history, and the two optional laboratory values.
\<close>

record user_input =
  age :: real
  height :: real
  weight :: real
  gender :: string
  smoking :: string
  gestationalHistory :: string
  hbA1c :: "real option"
  bloodGlucose :: "real option"




text \<open>A feature read as a number, and as a truth value.\<close>

fun num_of :: "pyval \<Rightarrow> real" where
  "num_of (PFloat r) = r"
| "num_of (PInt i) = of_int i"
| "num_of (PBool b) = (if b then 1 else 0)"
| "num_of _ = 0"

definition flag :: "(string \<times> pyval) list \<Rightarrow> string \<Rightarrow> bool" where
  "flag features name = (case map_of features name of Some (PBool b) \<Rightarrow> b | _ \<Rightarrow> False)"

definition number :: "(string \<times> pyval) list \<Rightarrow> string \<Rightarrow> real \<Rightarrow> real" where
  "number features name dflt = (case map_of features name of Some v \<Rightarrow> num_of v | None \<Rightarrow> dflt)"

text \<open>\<^verbatim>\<open>_calculate_lifestyle_risk\<close> (lines 445-502).\<close>

definition calculate_lifestyle_risk :: "(string \<times> pyval) list \<Rightarrow> real" where
  "calculate_lifestyle_risk features =
     (let a = number features ''age'' 35;
          b = number features ''bmi'' 25;
          r1 = (if a \<ge> 65 then 3 / 10 else if a \<ge> 50 then 2 / 10
                else if a \<ge> 35 then 1 / 10 else 0);
          r2 = r1 + (if b \<ge> 35 then 25 / 100 else if b \<ge> 30 then 2 / 10
                     else if b \<ge> 25 then 1 / 10 else 0);
          r3 = r2 + (if flag features ''gender_Male'' then 5 / 100 else 0);
          r4 = r3 + (if flag features ''smoking_history_current'' then 1 / 10
                     else if flag features ''smoking_history_former'' then 5 / 100 else 0)
      in min r4 (8 / 10))"

text \<open>\<^verbatim>\<open>_calculate_risk_with_clinical\<close> (lines 389-439).\<close>

definition calculate_risk_with_clinical :: "(string \<times> pyval) list \<Rightarrow> real" where
  "calculate_risk_with_clinical features =
     (let h = number features ''hbA1c_level'' (57 / 10);
          g = number features ''blood_glucose_level'' 95;
          r1 = (if h \<ge> 65 / 10 then 7 / 10 else if h \<ge> 57 / 10 then 4 / 10 else 0);
          r2 = r1 + (if g \<ge> 126 then 3 / 10 else if g \<ge> 100 then 15 / 100 else 0);
          r3 = r2 + calculate_lifestyle_risk features * (3 / 10)
      in min r3 (95 / 100))"

text \<open>The fallback of lines 279-281 and 340-342: the risk and the name of its source.\<close>

definition risk_calculator :: "(string \<times> pyval) list \<Rightarrow> bool \<Rightarrow> real \<times> string \<times> string" where
  "risk_calculator features has_clinical_data =
     (if has_clinical_data then
        (calculate_risk_with_clinical features,
         ''Risk Calculator (Clinical + Lifestyle)'', ''moderate'')
      else
        (calculate_lifestyle_risk features, ''Risk Calculator (Lifestyle Only)'', ''moderate''))"

text \<open>
  Lines 287-301: the one-row frame of the features in the order of the schema of the
  model; a column of the schema that the request did not produce gets a default.
\<close>

definition schema_default :: "string \<Rightarrow> string \<Rightarrow> pyval" where
  "schema_default gender_arg col =
     (if contains (lower col) ''gestational'' then PBool False
      else if col \<in> set [''gender_Female'', ''gender_Male''] then
        PBool (col = ''gender_'' @ (case gender_arg of [] \<Rightarrow> [] | c # cs \<Rightarrow>
                 (case map_of (zip ''abcdefghijklmnopqrstuvwxyz'' ''ABCDEFGHIJKLMNOPQRSTUVWXYZ'') c of
                    Some u \<Rightarrow> u | None \<Rightarrow> c) # cs))
      else PInt 0)"

definition feature_frame ::
  "(string \<times> pyval) list \<Rightarrow> string list \<Rightarrow> string \<Rightarrow> (string \<times> pyval) list" where
  "feature_frame features feature_schema gender_arg =
     map (\<lambda>col. case map_of features col of
                   Some v \<Rightarrow> (col, v)
                 | None \<Rightarrow> (col, schema_default gender_arg col)) feature_schema"

text \<open>
  Lines 304-315: the scaler is applied to the four columns named in the function, which
  must be columns of the frame (KeyError otherwise). The names of the scaler are not
  looked at.
\<close>

definition numeric_features :: "string list" where
  "numeric_features = [''age'', ''bmi'', ''hbA1c_level'', ''blood_glucose_level'']"

fun transform_row :: "real option list \<Rightarrow> real option list \<Rightarrow> pyval list \<Rightarrow> error + pyval list" where
  "transform_row [] [] [] = Inr []"
| "transform_row (m # ms) (s # ss) (v # vs) =
     bind (transform_row ms ss vs) (\<lambda>rest.
       Inr ((case (m, s) of
               (Some m', Some s') \<Rightarrow> PFloat ((num_of v - m') / s')
             | _ \<Rightarrow> PNaN) # rest))"
| "transform_row _ _ _ = Inl ValueError"

definition apply_scaler ::
  "scaler option \<Rightarrow> (string \<times> pyval) list \<Rightarrow> error + (string \<times> pyval) list" where
  "apply_scaler sc feature_df =
     (case sc of
        None \<Rightarrow> Inr feature_df
      | Some s \<Rightarrow>
          (case find (\<lambda>name. map_of feature_df name = None) numeric_features of
             Some name \<Rightarrow> Inl (KeyError name)
           | None \<Rightarrow>
               bind (transform_row (mean s) (scale s)
                       (map (\<lambda>name. case map_of feature_df name of
                                       Some v \<Rightarrow> v | None \<Rightarrow> PNaN) numeric_features))
                 (\<lambda>scaled_numeric.
                    Inr (fold (\<lambda>(name, v) df. map (\<lambda>(n, x). if n = name then (n, v) else (n, x)) df)
                           (zip numeric_features scaled_numeric) feature_df))))"




text \<open>
  Lines 284-342, once a model is selected: the exception of any step is caught and the
  risk calculator answers in its place.
\<close>

definition model_risk ::
  "service \<Rightarrow> model \<Rightarrow> string list \<Rightarrow> string \<Rightarrow> (string \<times> pyval) list \<Rightarrow> string \<Rightarrow> bool
   \<Rightarrow> real \<times> string \<times> string" where
  "model_risk svc model_to_use feature_schema model_name features gender_arg has_clinical_data =
     (case bind (apply_scaler (feature_scaler svc)
                   (feature_frame features feature_schema gender_arg)) model_to_use of
        Inr risk_probability \<Rightarrow>
          (risk_probability, model_name @ '' Model (Clinical + Lifestyle)'', ''high'')
      | Inl e \<Rightarrow> risk_calculator features has_clinical_data)"


text \<open>
  A small table for the examples, with a missing cell; the same table after the
  imputation and after the feature engineering.
\<close>

definition bmi_table :: dataframe where
  "bmi_table =
     [(''bmi'', Numeric [Some 19, Some 21]), (''insulin'', Numeric [None, Some 7]),
      (''diabetes'', Numeric [Some 0, Some 1])]"

definition bmi_imputed :: dataframe where
  "bmi_imputed =
     [(''bmi'', Numeric [Some 19, Some 21]), (''insulin'', Numeric [Some 7, Some 7]),
      (''diabetes'', Numeric [Some 0, Some 1])]"

definition bmi_engineered :: dataframe where
  "bmi_engineered =
     bmi_imputed @
     [(''bmi_risk_level'',
         Category [''underweight'', ''normal'', ''overweight'', ''obese_1'', ''obese_2'']
           [Some ''normal'', Some ''normal''])]"

text \<open>
  A frame of two numeric columns for the examples of the outlier treatment: \<^verbatim>\<open>age\<close>
  has one value below its lower bound, \<^verbatim>\<open>bmi\<close> has a missing cell and no value
  outside its bounds.
\<close>

definition outlier_table :: dataframe where
  "outlier_table =
     [(''age'', Numeric [Some (-100), Some 0, Some 1, Some 2, Some 3]),
      (''bmi'', Numeric [Some 20, None, Some 22, Some 21, Some 23])]"

text \<open>The two assignments of the cap branch together clamp a value.\<close>

definition clip :: "real \<Rightarrow> real \<Rightarrow> real \<Rightarrow> real" where
  "clip l u x = min u (max l x)"

text \<open>
  What the restated idempotence claim asks of a column: the two sorted values that the
  first quartile is interpolated from and the two that the third quartile is interpolated
  from are themselves inside the bounds (it is enough to ask it of the lowest and the
  highest of the four).
\<close>

definition quartile_points_within :: "real option list \<Rightarrow> real \<Rightarrow> bool" where
  "quartile_points_within series multiplier =
     (let s = sort (dropna series); n = length s in
      case iqr_bounds series multiplier of
        None \<Rightarrow> True
      | Some (lower_bound, upper_bound) \<Rightarrow>
          lower_bound \<le> s ! nat \<lfloor>(1/4) * real (n - 1)\<rfloor> \<and>
          s ! nat \<lceil>(3/4) * real (n - 1)\<rceil> \<le> upper_bound)"

text \<open>The column is a numeric column of the frame.\<close>

definition numeric_in :: "dataframe \<Rightarrow> string \<Rightarrow> bool" where
  "numeric_in df c = (case map_of df c of Some (Numeric _) \<Rightarrow> True | _ \<Rightarrow> False)"
section \<open>Outlier treatment: properties\<close>

subsection \<open>Frames and dictionaries\<close>

lemma map_of_filter_rows:
  "map_of (filter_rows m df) c = map_option (filter_col m) (map_of df c)"
  unfolding filter_rows_def by (induction df) auto

lemma numeric_in_filter_rows: "numeric_in df c \<Longrightarrow> numeric_in (filter_rows m df) c"
  by (auto simp: numeric_in_def map_of_filter_rows split: option.splits column.splits)

lemma numeric_in_update:
  "numeric_in df c \<Longrightarrow> numeric_in (AList.update k (Numeric xs) df) c"
  by (auto simp: numeric_in_def update_conv' split: option.splits column.splits)

lemma numeric_in_treat:
  "numeric_in df c \<Longrightarrow> numeric_in (treat_outliers method m col series df) c"
  by (simp add: treat_outliers_def numeric_in_update numeric_in_filter_rows
      split: option.splits)

lemma snd_set_update: "snd ` set (AList.update k v al) \<subseteq> insert v (snd ` set al)"
  by (induction al) auto

lemma fst_set_update: "fst ` set (AList.update k v al) = insert k (fst ` set al)"
  by (induction al) auto

subsection \<open>The loop returns, with one record per column\<close>

lemma loop_total:
  "\<forall>c\<in>set cols. numeric_in df c \<Longrightarrow>
   \<exists>df' info'. handle_outliers_loop n method m cols df info = Inr (df', info')"
proof (induction cols arbitrary: df info)
  case Nil
  then show ?case by simp
next
  case (Cons col cols)
  from Cons.prems obtain series where s: "map_of df col = Some (Numeric series)"
    by (auto simp: numeric_in_def split: option.splits column.splits)
  have "\<forall>c\<in>set cols. numeric_in (treat_outliers method m col series df) c"
    using Cons.prems by (simp add: numeric_in_treat)
  from Cons.IH[OF this] show ?case using s by simp
qed

lemma loop_step:
  assumes "handle_outliers_loop n method m (col # cols) df info = Inr (df', info')"
  obtains series where "map_of df col = Some (Numeric series)"
    and "handle_outliers_loop n method m cols (treat_outliers method m col series df)
           (AList.update col (outlier_record (outlier_count_of series m) n method) info)
         = Inr (df', info')"
proof -
  from assms obtain series where s: "map_of df col = Some (Numeric series)"
    by (simp split: option.splits column.splits)
  with assms that show thesis by simp
qed

lemma loop_keys:
  "handle_outliers_loop n method m cols df info = Inr (df', info') \<Longrightarrow>
   fst ` set info' = fst ` set info \<union> set cols"
proof (induction cols arbitrary: df info)
  case Nil
  then show ?case by simp
next
  case (Cons col cols)
  from Cons.prems obtain series where
    "handle_outliers_loop n method m cols (treat_outliers method m col series df)
       (AList.update col (outlier_record (outlier_count_of series m) n method) info)
     = Inr (df', info')"
    by (rule loop_step)
  from Cons.IH[OF this] show ?case by (simp add: fst_set_update)
qed

lemma loop_distinct:
  "handle_outliers_loop n method m cols df info = Inr (df', info') \<Longrightarrow>
   distinct (map fst info) \<Longrightarrow> distinct (map fst info')"
proof (induction cols arbitrary: df info)
  case Nil
  then show ?case by simp
next
  case (Cons col cols)
  from Cons.prems(1) obtain series where rec:
    "handle_outliers_loop n method m cols (treat_outliers method m col series df)
       (AList.update col (outlier_record (outlier_count_of series m) n method) info)
     = Inr (df', info')"
    by (rule loop_step)
  have "distinct (map fst
     (AList.update col (outlier_record (outlier_count_of series m) n method) info))"
    using Cons.prems(2) by (simp add: distinct_update)
  then show ?case by (rule Cons.IH[OF rec])
qed

lemma loop_keeps_info:
  "handle_outliers_loop n method m cols df info = Inr (df', info') \<Longrightarrow> c \<notin> set cols \<Longrightarrow>
   map_of info' c = map_of info c"
proof (induction cols arbitrary: df info)
  case Nil
  then show ?case by simp
next
  case (Cons col cols)
  from Cons.prems(1) obtain series where rec:
    "handle_outliers_loop n method m cols (treat_outliers method m col series df)
       (AList.update col (outlier_record (outlier_count_of series m) n method) info)
     = Inr (df', info')"
    by (rule loop_step)
  have "c \<notin> set cols" and "c \<noteq> col" using Cons.prems(2) by auto
  from Cons.IH[OF rec this(1)] this(2) show ?case
    by (simp add: update_conv')
qed

lemma treat_keeps_column:
  "method \<noteq> ''remove'' \<Longrightarrow> c \<noteq> col \<Longrightarrow>
   map_of (treat_outliers method m col series df) c = map_of df c"
  unfolding treat_outliers_def by (simp add: update_conv' split: option.splits)

lemma loop_keeps_column:
  "handle_outliers_loop n method m cols df info = Inr (df', info') \<Longrightarrow>
   method \<noteq> ''remove'' \<Longrightarrow> c \<notin> set cols \<Longrightarrow> map_of df' c = map_of df c"
proof (induction cols arbitrary: df info)
  case Nil
  then show ?case by simp
next
  case (Cons col cols)
  from Cons.prems(1) obtain series where rec:
    "handle_outliers_loop n method m cols (treat_outliers method m col series df)
       (AList.update col (outlier_record (outlier_count_of series m) n method) info)
     = Inr (df', info')"
    by (rule loop_step)
  have c: "c \<notin> set cols" "c \<noteq> col" using Cons.prems(3) by auto
  have "map_of df' c = map_of (treat_outliers method m col series df) c"
    by (rule Cons.IH[OF rec Cons.prems(2) c(1)])
  then show ?case
    using treat_keeps_column[OF Cons.prems(2) c(2)] by simp
qed

lemma loop_append:
  "handle_outliers_loop n method m (before @ rest) df info = Inr (df', info') \<Longrightarrow>
   \<exists>df_b info_b. handle_outliers_loop n method m before df info = Inr (df_b, info_b) \<and>
     handle_outliers_loop n method m rest df_b info_b = Inr (df', info')"
proof (induction before arbitrary: df info)
  case Nil
  then show ?case by simp
next
  case (Cons b before)
  from Cons.prems have "handle_outliers_loop n method m (b # (before @ rest)) df info = Inr (df', info')"
    by simp
  then obtain series where s: "map_of df b = Some (Numeric series)" and rec:
    "handle_outliers_loop n method m (before @ rest) (treat_outliers method m b series df)
       (AList.update b (outlier_record (outlier_count_of series m) n method) info)
     = Inr (df', info')"
    by (rule loop_step)
  from Cons.IH[OF rec] show ?case
    using s by simp
qed

text \<open>
  C9, as the code has it. Called on numeric columns of the frame, \<^verbatim>\<open>handle_outliers\<close>
  returns, and \<^verbatim>\<open>outlier_info\<close> holds exactly one record for every column of
  \<^verbatim>\<open>numeric_cols\<close>, flagged values or not. The record of a column is computed from
  the column as the treatment of the columns before it has left it, which for every
  method but \<^verbatim>\<open>'remove'\<close> is the column of the frame that was passed, when the column
  is listed once. It holds \<^verbatim>\<open>outlier_count\<close>, the number of values of that column
  outside its bounds, \<^verbatim>\<open>outlier_percentage\<close>, the count as a percentage of the rows
  of the frame that was passed, to two decimals, and \<^verbatim>\<open>method_applied\<close>, the method
  asked for when the count is positive and \<^verbatim>\<open>'none'\<close> otherwise. The bounds are not
  part of the record.
\<close>

theorem handle_outliers_one_record_per_column:
  assumes "\<forall>c\<in>set numeric_cols. numeric_in df c"
  shows "\<exists>df_clean outlier_info.
           handle_outliers df numeric_cols method multiplier = Inr (df_clean, outlier_info) \<and>
           fst ` set outlier_info = set numeric_cols \<and>
           distinct (map fst outlier_info) \<and>
           (\<forall>before col after.
              numeric_cols = before @ col # after \<and> col \<notin> set after \<longrightarrow>
              (\<exists>df_before info_before series k.
                 handle_outliers df before method multiplier = Inr (df_before, info_before) \<and>
                 map_of df_before col = Some (Numeric series) \<and>
                 (method \<noteq> ''remove'' \<and> col \<notin> set before \<longrightarrow>
                    map_of df col = Some (Numeric series)) \<and>
                 k = outlier_count_of series multiplier \<and>
                 map_of outlier_info col =
                   Some [(''outlier_count'', PInt (int k)),
                         (''outlier_percentage'',
                            if nrows df = 0 then PNaN
                            else PFloat (round2 (real k / real (nrows df) * 100))),
                         (''method_applied'', PStr (if k > 0 then method else ''none''))]))"
proof -
  from loop_total[OF assms] obtain df_clean outlier_info where
    run: "handle_outliers_loop (nrows df) method multiplier numeric_cols df [] =
            Inr (df_clean, outlier_info)"
    by blast
  have keys: "fst ` set outlier_info = set numeric_cols"
    using loop_keys[OF run] by simp
  have dist: "distinct (map fst outlier_info)"
    using loop_distinct[OF run] by simp
  have rec: "\<exists>df_before info_before series k.
        handle_outliers df before method multiplier = Inr (df_before, info_before) \<and>
        map_of df_before col = Some (Numeric series) \<and>
        (method \<noteq> ''remove'' \<and> col \<notin> set before \<longrightarrow> map_of df col = Some (Numeric series)) \<and>
        k = outlier_count_of series multiplier \<and>
        map_of outlier_info col =
          Some [(''outlier_count'', PInt (int k)),
                (''outlier_percentage'',
                   if nrows df = 0 then PNaN
                   else PFloat (round2 (real k / real (nrows df) * 100))),
                (''method_applied'', PStr (if k > 0 then method else ''none''))]"
    if split: "numeric_cols = before @ col # after \<and> col \<notin> set after"
    for before col after
  proof -
    from split have eq: "numeric_cols = before @ col # after" and last: "col \<notin> set after"
      by simp_all
    from loop_append[OF run[unfolded eq]] obtain df_b info_b where
      pre: "handle_outliers_loop (nrows df) method multiplier before df [] = Inr (df_b, info_b)"
      and post: "handle_outliers_loop (nrows df) method multiplier (col # after) df_b info_b =
                   Inr (df_clean, outlier_info)"
      by blast
    from post obtain series where s: "map_of df_b col = Some (Numeric series)" and rest:
      "handle_outliers_loop (nrows df) method multiplier after
         (treat_outliers method multiplier col series df_b)
         (AList.update col
            (outlier_record (outlier_count_of series multiplier) (nrows df) method) info_b)
       = Inr (df_clean, outlier_info)"
      by (rule loop_step)
    define k where "k = outlier_count_of series multiplier"
    have "map_of outlier_info col = Some (outlier_record k (nrows df) method)"
      unfolding k_def using loop_keeps_info[OF rest last] by (simp add: update_conv')
    then have r: "map_of outlier_info col =
          Some [(''outlier_count'', PInt (int k)),
                (''outlier_percentage'',
                   if nrows df = 0 then PNaN
                   else PFloat (round2 (real k / real (nrows df) * 100))),
                (''method_applied'', PStr (if k > 0 then method else ''none''))]"
      by (simp only: outlier_record_def)
    have orig: "method \<noteq> ''remove'' \<and> col \<notin> set before \<longrightarrow>
        map_of df col = Some (Numeric series)"
    proof
      assume a: "method \<noteq> ''remove'' \<and> col \<notin> set before"
      then have "map_of df_b col = map_of df col"
        using loop_keeps_column[OF pre] by blast
      with s show "map_of df col = Some (Numeric series)" by simp
    qed
    have pre': "handle_outliers df before method multiplier = Inr (df_b, info_b)"
      unfolding handle_outliers_def by (rule pre)
    show ?thesis
      apply (rule exI[of _ df_b])
      apply (rule exI[of _ info_b])
      apply (rule exI[of _ series])
      apply (rule exI[of _ k])
      apply (intro conjI)
          apply (rule pre')
         apply (rule s)
        apply (rule orig)
       apply (rule k_def)
      apply (rule r)
      done
  qed
  have run': "handle_outliers df numeric_cols method multiplier = Inr (df_clean, outlier_info)"
    unfolding handle_outliers_def by (rule run)
  show ?thesis
    apply (rule exI[of _ df_clean])
    apply (rule exI[of _ outlier_info])
    apply (intro conjI allI impI)
       apply (rule run')
      apply (rule keys)
     apply (rule dist)
    apply (erule rec)
    done
qed

lemma outlier_table_counts:
  "outlier_count_of [Some (-100), Some 0, Some 1, Some 2, Some 3] (3/2) = 1 \<and>
   outlier_count_of [Some 20, None, Some 22, Some 21, Some 23] (3/2) = 0 \<and>
   nrows outlier_table = 5 \<and> round2 (1 / 5 * 100) = 20 \<and> round2 0 = 0"
  by code_simp

theorem handle_outliers_one_record_per_column_witness:
  "numeric_in outlier_table ''age'' \<and> numeric_in outlier_table ''bmi'' \<and>
   (\<exists>df_clean outlier_info.
      handle_outliers outlier_table [''age'', ''bmi''] ''cap'' (3/2) = Inr (df_clean, outlier_info) \<and>
      map_of outlier_info ''age'' =
        Some [(''outlier_count'', PInt 1), (''outlier_percentage'', PFloat 20),
              (''method_applied'', PStr ''cap'')] \<and>
      map_of outlier_info ''bmi'' =
        Some [(''outlier_count'', PInt 0), (''outlier_percentage'', PFloat 0),
              (''method_applied'', PStr ''none'')])"
proof -
  have h: "\<forall>c\<in>set [''age'', ''bmi'']. numeric_in outlier_table c"
    by (simp add: numeric_in_def outlier_table_def)
  from handle_outliers_one_record_per_column[OF h, of "''cap''" "3/2"] obtain df_clean outlier_info where
    run: "handle_outliers outlier_table [''age'', ''bmi''] ''cap'' (3/2) = Inr (df_clean, outlier_info)"
    and rec: "\<forall>before col after.
       [''age'', ''bmi''] = before @ col # after \<and> col \<notin> set after \<longrightarrow>
       (\<exists>df_before info_before series k.
          handle_outliers outlier_table before ''cap'' (3/2) = Inr (df_before, info_before) \<and>
          map_of df_before col = Some (Numeric series) \<and>
          (''cap'' \<noteq> ''remove'' \<and> col \<notin> set before \<longrightarrow>
             map_of outlier_table col = Some (Numeric series)) \<and>
          k = outlier_count_of series (3/2) \<and>
          map_of outlier_info col =
            Some [(''outlier_count'', PInt (int k)),
                  (''outlier_percentage'',
                     if nrows outlier_table = 0 then PNaN
                     else PFloat (round2 (real k / real (nrows outlier_table) * 100))),
                  (''method_applied'', PStr (if k > 0 then ''cap'' else ''none''))])"
    by (elim exE conjE) (rule that)
  have "[''age'', ''bmi''] = [] @ ''age'' # [''bmi''] \<and> ''age'' \<notin> set [''bmi'']"
    by simp
  from rec[rule_format, OF this] obtain series k where
    orig: "''cap'' \<noteq> ''remove'' \<and> ''age'' \<notin> set [] \<longrightarrow>
             map_of outlier_table ''age'' = Some (Numeric series)"
    and k: "k = outlier_count_of series (3/2)"
    and r: "map_of outlier_info ''age'' =
            Some [(''outlier_count'', PInt (int k)),
                  (''outlier_percentage'',
                     if nrows outlier_table = 0 then PNaN
                     else PFloat (round2 (real k / real (nrows outlier_table) * 100))),
                  (''method_applied'', PStr (if k > 0 then ''cap'' else ''none''))]"
    by blast
  from orig have "series = [Some (-100), Some 0, Some 1, Some 2, Some 3]"
    by (simp add: outlier_table_def)
  with k have "k = 1" using outlier_table_counts by simp
  with r have age: "map_of outlier_info ''age'' =
        Some [(''outlier_count'', PInt 1), (''outlier_percentage'', PFloat 20),
              (''method_applied'', PStr ''cap'')]"
    using outlier_table_counts by simp
  have "[''age'', ''bmi''] = [''age''] @ ''bmi'' # [] \<and> ''bmi'' \<notin> set []"
    by simp
  from rec[rule_format, OF this] obtain series' k' where
    orig: "''cap'' \<noteq> ''remove'' \<and> ''bmi'' \<notin> set [''age''] \<longrightarrow>
             map_of outlier_table ''bmi'' = Some (Numeric series')"
    and k: "k' = outlier_count_of series' (3/2)"
    and r: "map_of outlier_info ''bmi'' =
            Some [(''outlier_count'', PInt (int k')),
                  (''outlier_percentage'',
                     if nrows outlier_table = 0 then PNaN
                     else PFloat (round2 (real k' / real (nrows outlier_table) * 100))),
                  (''method_applied'', PStr (if k' > 0 then ''cap'' else ''none''))]"
    by blast
  from orig have "series' = [Some 20, None, Some 22, Some 21, Some 23]"
    by (simp add: outlier_table_def)
  with k have "k' = 0" using outlier_table_counts by simp
  with r have bmi: "map_of outlier_info ''bmi'' =
        Some [(''outlier_count'', PInt 0), (''outlier_percentage'', PFloat 0),
              (''method_applied'', PStr ''none'')]"
    using outlier_table_counts by simp
  have "numeric_in outlier_table ''age''" "numeric_in outlier_table ''bmi''"
    using h by simp_all
  with run age bmi show ?thesis by blast
qed

text \<open>
  C9 as the spec states it fails: the record of a column holds the count, the percentage
  and the method, and no bound, here for a column where a value was capped.
\<close>

theorem outlier_record_has_no_bounds_counterexample:
  "(case handle_outliers [(''age'', Numeric [Some (-100), Some 0, Some 1, Some 2, Some 3])]
           [''age''] ''cap'' (3/2) of
      Inl _ \<Rightarrow> None
    | Inr (_, outlier_info) \<Rightarrow> map_option (map fst) (map_of outlier_info ''age''))
   = Some [''outlier_count'', ''outlier_percentage'', ''method_applied'']"
  by (simp add: handle_outliers_def outlier_record_def)

subsection \<open>Capping twice\<close>

lemma cap_values_clip: "cap_values l u xs = map (map_option (clip l u)) xs"
  by (auto simp: cap_values_def clip_def option.map_comp comp_def min_def max_def intro!: option.map_cong)

lemma dropna_map: "dropna (map (map_option f) xs) = map f (dropna xs)"
  by (induction xs) (auto simp: dropna_def List.map_filter_def)

lemma mono_clip: "mono (clip l u)"
  by (auto simp: mono_def clip_def min_def max_def)

lemma sort_map_mono:
  fixes f :: "real \<Rightarrow> real"
  assumes "mono f"
  shows "sort (map f xs) = map f (sort xs)"
proof (rule properties_for_sort)
  show "mset (map f (sort xs)) = mset (map f xs)" by simp
  have "sorted_wrt (\<lambda>x y. f x \<le> f y) (sort xs)"
    by (rule sorted_wrt_mono_rel[of _ "(\<le>)"]) (use assms in \<open>auto dest: monoD\<close>)
  then show "sorted (map f (sort xs))" by (simp add: sorted_map)
qed

lemma floor_ceiling_index:
  fixes q :: real
  assumes "0 \<le> q" "q \<le> 1" "0 < n"
  shows "nat \<lfloor>q * real (n - 1)\<rfloor> \<le> nat \<lceil>q * real (n - 1)\<rceil>"
    and "nat \<lceil>q * real (n - 1)\<rceil> < n"
proof -
  have p0: "0 \<le> q * real (n - 1)" using assms by simp
  have p1: "q * real (n - 1) \<le> real (n - 1)" using assms by (simp add: mult_left_le_one_le)
  show "nat \<lfloor>q * real (n - 1)\<rfloor> \<le> nat \<lceil>q * real (n - 1)\<rceil>"
    by (simp add: floor_le_ceiling nat_mono)
  have "\<lceil>q * real (n - 1)\<rceil> \<le> int (n - 1)" using p1 by (simp add: ceiling_le_iff)
  then show "nat \<lceil>q * real (n - 1)\<rceil> < n" using assms(3) by linarith
qed

lemma quantile_cap:
  fixes q :: real
  assumes q: "0 \<le> q" "q \<le> 1"
    and s: "s = sort (dropna series)" and n: "s \<noteq> []"
    and lo: "l \<le> s ! nat \<lfloor>q * real (length s - 1)\<rfloor>"
    and hi: "s ! nat \<lceil>q * real (length s - 1)\<rceil> \<le> u"
  shows "quantile (cap_values l u series) q = quantile series q"
proof -
  define pos where "pos = q * real (length s - 1)"
  define i where "i = nat \<lfloor>pos\<rfloor>"
  define j where "j = nat \<lceil>pos\<rceil>"
  have npos: "0 < length s" using n by simp
  have le: "i \<le> j" unfolding i_def j_def pos_def by (rule floor_ceiling_index(1)[OF q npos])
  have jn: "j < length s" unfolding i_def j_def pos_def by (rule floor_ceiling_index(2)[OF q npos])
  have "sorted s" unfolding s by (rule sorted_sort)
  then have mid: "s ! i \<le> s ! j"
    using le jn by (rule sorted_nth_mono)
  have lo': "l \<le> s ! i" using lo unfolding i_def pos_def .
  have hi': "s ! j \<le> u" using hi unfolding j_def pos_def .
  have s': "sort (dropna (cap_values l u series)) = map (clip l u) s"
    by (simp add: cap_values_clip dropna_map sort_map_mono[OF mono_clip] s)
  have fi: "clip l u (s ! i) = s ! i"
    using lo' mid hi' by (simp add: clip_def min_def max_def)
  have fj: "clip l u (s ! j) = s ! j"
    using lo' mid hi' by (simp add: clip_def min_def max_def)
  have "i < length s" using le jn by simp
  then have mi: "map (clip l u) s ! i = s ! i" using fi by simp
  have mj: "map (clip l u) s ! j = s ! j" using fj jn by simp
  have L: "quantile (cap_values l u series) q =
      Some (map (clip l u) s ! i + (map (clip l u) s ! j - map (clip l u) s ! i) * (pos - real i))"
    unfolding quantile_def s' Let_def i_def j_def pos_def using n by simp
  have R: "quantile series q = Some (s ! i + (s ! j - s ! i) * (pos - real i))"
    unfolding quantile_def s[symmetric] Let_def i_def j_def pos_def using n by simp
  show ?thesis unfolding L R mi mj ..
qed

lemma iqr_bounds_Some_nonempty:
  "iqr_bounds series m = Some b \<Longrightarrow> sort (dropna series) \<noteq> []"
  by (auto simp: iqr_bounds_def quantile_def Let_def split: option.splits if_splits)

lemma quartile_index_order:
  assumes "0 < n"
  shows "nat \<lfloor>(1/4) * real (n - 1)\<rfloor> \<le> nat \<lfloor>(3/4) * real (n - 1)\<rfloor>"
    and "nat \<lceil>(1/4) * real (n - 1)\<rceil> \<le> nat \<lceil>(3/4) * real (n - 1)\<rceil>"
proof -
  have "(1/4) * real (n - 1) \<le> (3/4) * real (n - 1)" by simp
  then show "nat \<lfloor>(1/4) * real (n - 1)\<rfloor> \<le> nat \<lfloor>(3/4) * real (n - 1)\<rfloor>"
    by (intro nat_mono floor_mono)
  have "(1/4) * real (n - 1) \<le> (3/4) * real (n - 1)" by simp
  then show "nat \<lceil>(1/4) * real (n - 1)\<rceil> \<le> nat \<lceil>(3/4) * real (n - 1)\<rceil>"
    by (intro nat_mono ceiling_mono)
qed

lemma iqr_bounds_cap:
  assumes b: "iqr_bounds series m = Some (l, u)"
    and w: "quartile_points_within series m"
  shows "iqr_bounds (cap_values l u series) m = Some (l, u)" and "l \<le> u"
proof -
  define s where "s = sort (dropna series)"
  have n: "s \<noteq> []" unfolding s_def by (rule iqr_bounds_Some_nonempty[OF b])
  then have npos: "0 < length s" by simp
  define i1 where "i1 = nat \<lfloor>(1/4) * real (length s - 1)\<rfloor>"
  define j1 where "j1 = nat \<lceil>(1/4) * real (length s - 1)\<rceil>"
  define i3 where "i3 = nat \<lfloor>(3/4) * real (length s - 1)\<rfloor>"
  define j3 where "j3 = nat \<lceil>(3/4) * real (length s - 1)\<rceil>"
  have lo: "l \<le> s ! i1" and hi: "s ! j3 \<le> u"
    using w b unfolding quartile_points_within_def Let_def s_def[symmetric] i1_def j3_def by simp_all
  have srt: "sorted s" unfolding s_def by (rule sorted_sort)
  have i13: "i1 \<le> i3" unfolding i1_def i3_def by (rule quartile_index_order(1)[OF npos])
  have j13: "j1 \<le> j3" unfolding j1_def j3_def by (rule quartile_index_order(2)[OF npos])
  have i3j3: "i3 \<le> j3" unfolding i3_def j3_def by (rule floor_ceiling_index(1)[OF _ _ npos]) simp_all
  have j3n: "j3 < length s" unfolding j3_def by (rule floor_ceiling_index(2)[OF _ _ npos]) simp_all
  have "s ! i1 \<le> s ! i3" using srt i13 i3j3 j3n by (intro sorted_nth_mono) simp_all
  then have lo3: "l \<le> s ! i3" using lo by simp
  have "s ! j1 \<le> s ! j3" using srt j13 j3n by (intro sorted_nth_mono) simp_all
  then have hi1: "s ! j1 \<le> u" using hi by simp
  have "s ! i1 \<le> s ! j3" using srt i13 i3j3 j3n by (intro sorted_nth_mono) simp_all
  then show "l \<le> u" using lo hi by simp
  have q1: "quantile (cap_values l u series) (1/4) = quantile series (1/4)"
    by (rule quantile_cap[OF _ _ s_def n]) (use lo hi1 in \<open>simp_all add: i1_def j1_def\<close>)
  have q3: "quantile (cap_values l u series) (3/4) = quantile series (3/4)"
    by (rule quantile_cap[OF _ _ s_def n]) (use lo3 hi in \<open>simp_all add: i3_def j3_def\<close>)
  show "iqr_bounds (cap_values l u series) m = Some (l, u)"
    using b unfolding iqr_bounds_def q1 q3 .
qed

lemma outlier_count_capped:
  assumes "iqr_bounds (cap_values l u series) m = Some (l, u)" "l \<le> u"
  shows "outlier_count_of (cap_values l u series) m = 0"
  using assms
  by (auto simp: outlier_count_of_def detect_outliers_iqr_def cap_values_clip clip_def min_def max_def filter_empty_conv split: option.splits)


lemma treat_outliers_none_flagged:
  "outlier_count_of series m = 0 \<Longrightarrow> treat_outliers method m col series df = df"
  by (simp add: treat_outliers_def)

lemma handle_outliers_single:
  "map_of df col = Some (Numeric series) \<Longrightarrow>
   handle_outliers df [col] method m =
     Inr (treat_outliers method m col series df,
          [(col, outlier_record (outlier_count_of series m) (nrows df) method)])"
  by (simp add: handle_outliers_def)

text \<open>
  C7, as the code has it. Capping a numeric column and capping the result again: when
  the sorted values that the quartiles of the column are interpolated from lie inside the
  bounds of the first pass, the second pass computes the same bounds and leaves the frame
  as the first pass returned it. (Without that condition the quartiles move with the
  capped values, and so do the bounds.)
\<close>

theorem cap_twice_same_bounds_same_frame:
  assumes col: "map_of df col = Some (Numeric series)"
    and w: "quartile_points_within series multiplier"
  shows "\<exists>df1 info1 series1 info2.
           handle_outliers df [col] ''cap'' multiplier = Inr (df1, info1) \<and>
           map_of df1 col = Some (Numeric series1) \<and>
           iqr_bounds series1 multiplier = iqr_bounds series multiplier \<and>
           handle_outliers df1 [col] ''cap'' multiplier = Inr (df1, info2)"
proof -
  define df1 where "df1 = treat_outliers ''cap'' multiplier col series df"
  have run1: "handle_outliers df [col] ''cap'' multiplier =
      Inr (df1, [(col, outlier_record (outlier_count_of series multiplier) (nrows df) ''cap'')])"
    unfolding df1_def by (rule handle_outliers_single[OF col])
  have "\<exists>series1. map_of df1 col = Some (Numeric series1) \<and>
          iqr_bounds series1 multiplier = iqr_bounds series multiplier \<and>
          treat_outliers ''cap'' multiplier col series1 df1 = df1"
  proof (cases "outlier_count_of series multiplier = 0")
    case True
    then have "df1 = df"
      unfolding df1_def by (rule treat_outliers_none_flagged)
    then show ?thesis
      using col True by (simp add: treat_outliers_none_flagged)
  next
    case False
    show ?thesis
    proof (cases "iqr_bounds series multiplier")
      case None
      then have "df1 = df"
        unfolding df1_def by (simp add: treat_outliers_def)
      moreover have "treat_outliers ''cap'' multiplier col series df = df"
        using None by (simp add: treat_outliers_def)
      ultimately show ?thesis
        using col by simp
    next
      case (Some b)
      obtain l u where b: "b = (l, u)"
        by (cases b)
      have bnd: "iqr_bounds series multiplier = Some (l, u)"
        using Some b by simp
      have df1: "df1 = AList.update col (Numeric (cap_values l u series)) df"
        unfolding df1_def using False bnd by (simp add: treat_outliers_def)
      have c1: "map_of df1 col = Some (Numeric (cap_values l u series))"
        unfolding df1 by (simp add: update_conv')
      have c2: "iqr_bounds (cap_values l u series) multiplier = Some (l, u)" and lu: "l \<le> u"
        using iqr_bounds_cap[OF bnd w] by simp_all
      have "outlier_count_of (cap_values l u series) multiplier = 0"
        by (rule outlier_count_capped[OF c2 lu])
      then have "treat_outliers ''cap'' multiplier col (cap_values l u series) df1 = df1"
        by (rule treat_outliers_none_flagged)
      then show ?thesis
        using c1 c2 bnd by simp
    qed
  qed
  then obtain series1 where s1: "map_of df1 col = Some (Numeric series1)"
    and b1: "iqr_bounds series1 multiplier = iqr_bounds series multiplier"
    and t1: "treat_outliers ''cap'' multiplier col series1 df1 = df1"
    by blast
  have run2: "handle_outliers df1 [col] ''cap'' multiplier =
      Inr (df1, [(col, outlier_record (outlier_count_of series1 multiplier) (nrows df1) ''cap'')])"
    using handle_outliers_single[OF s1, of "''cap''" multiplier] unfolding t1 .
  show ?thesis
    using run1 s1 b1 run2 by blast
qed

theorem cap_twice_same_bounds_same_frame_witness:
  "map_of [(''bmi'', Numeric [Some (-100), Some 0, Some 1, Some 2, Some 3])] ''bmi'' =
     Some (Numeric [Some (-100), Some 0, Some 1, Some 2, Some 3]) \<and>
   quartile_points_within [Some (-100), Some 0, Some 1, Some 2, Some 3] (3/2) \<and>
   (\<exists>df1 info1 series1 info2.
      handle_outliers [(''bmi'', Numeric [Some (-100), Some 0, Some 1, Some 2, Some 3])]
        [''bmi''] ''cap'' (3/2) = Inr (df1, info1) \<and>
      map_of df1 ''bmi'' = Some (Numeric series1) \<and>
      iqr_bounds series1 (3/2) = iqr_bounds [Some (-100), Some 0, Some 1, Some 2, Some 3] (3/2) \<and>
      handle_outliers df1 [''bmi''] ''cap'' (3/2) = Inr (df1, info2))"
proof -
  have h1: "map_of [(''bmi'', Numeric [Some (-100), Some 0, Some 1, Some 2, Some 3])] ''bmi'' =
      Some (Numeric [Some (-100), Some 0, Some 1, Some 2, Some 3])"
    by simp
  have h2: "quartile_points_within [Some (-100), Some 0, Some 1, Some 2, Some 3] (3/2)"
    by (simp add: quartile_points_within_def iqr_bounds_def quantile_def dropna_def
        List.map_filter_def)
  show ?thesis
    using h1 h2 cap_twice_same_bounds_same_frame[OF h1 h2] by blast
qed

text \<open>
  C7 as the spec states it fails. On the column \<open>-100, 0, 1, 2\<close> the first pass has the
  bounds \<open>-64.375\<close> and \<open>40.625\<close> and caps \<open>-100\<close> to \<open>-64.375\<close>; the second pass, on the
  capped column, has the bounds \<open>-42.109375\<close> and \<open>27.265625\<close> and caps that value again.
\<close>

theorem cap_is_not_idempotent_counterexample:
  "handle_outliers [(''bmi'', Numeric [Some (-100), Some 0, Some 1, Some 2])]
     [''bmi''] ''cap'' (3/2) =
     Inr ([(''bmi'', Numeric [Some (- (515 / 8)), Some 0, Some 1, Some 2])],
          [(''bmi'', [(''outlier_count'', PInt 1), (''outlier_percentage'', PFloat 25),
                     (''method_applied'', PStr ''cap'')])]) \<and>
   handle_outliers [(''bmi'', Numeric [Some (- (515 / 8)), Some 0, Some 1, Some 2])]
     [''bmi''] ''cap'' (3/2) =
     Inr ([(''bmi'', Numeric [Some (- (2695 / 64)), Some 0, Some 1, Some 2])],
          [(''bmi'', [(''outlier_count'', PInt 1), (''outlier_percentage'', PFloat 25),
                     (''method_applied'', PStr ''cap'')])]) \<and>
   iqr_bounds [Some (-100), Some 0, Some 1, Some 2] (3/2) = Some (- (515 / 8), 325 / 8) \<and>
   iqr_bounds [Some (- (515 / 8)), Some 0, Some 1, Some 2] (3/2) =
     Some (- (2695 / 64), 1745 / 64)"
  by (simp add: handle_outliers_def outlier_count_of_def treat_outliers_def
      detect_outliers_iqr_def iqr_bounds_def quantile_def dropna_def List.map_filter_def
      cap_values_def outlier_record_def round2_def round_half_even_def)

section \<open>Feature engineering: properties\<close>

text \<open>The buckets of \<^verbatim>\<open>bmi_risk_level\<close> as \<^verbatim>\<open>pd.cut\<close> computes them: closed on the right.\<close>

lemma cut_value_bmi:
  "cut_value bmi_bins bmi_labels x =
     (if x \<le> 0 then None
      else if x \<le> 37/2 then Some ''underweight''
      else if x \<le> 25 then Some ''normal''
      else if x \<le> 30 then Some ''overweight''
      else if x \<le> 35 then Some ''obese_1''
      else Some ''obese_2'')"
  by (simp add: bmi_bins_def bmi_labels_def)

text \<open>
  C5: the claim puts the boundary values 18.5, 25, 30 and 35 in the higher bucket, and so
  does the prediction service for a live request. \<^verbatim>\<open>feature_engineering\<close> puts each of
  them in the lower bucket.
\<close>

theorem bmi_risk_level_boundaries_fall_in_lower_bucket:
  "feature_engineering [(''bmi'', Numeric [Some (37/2), Some 25, Some 30, Some 35])] None =
     Inr ([(''bmi'', Numeric [Some (37/2), Some 25, Some 30, Some 35]),
           (''bmi_risk_level'',
              Category [''underweight'', ''normal'', ''overweight'', ''obese_1'', ''obese_2'']
                [Some ''underweight'', Some ''normal'', Some ''overweight'', Some ''obese_1''])],
          [''bmi_risk_level'']) \<and>
   map serving_bmi_risk [37/2, 25, 30, 35] = [''normal'', ''overweight'', ''obese_1'', ''obese_2'']"
  by (simp add: feature_engineering_def fe_bmi_def fe_age_def fe_health_def fe_lifestyle_def
      fe_location_def has_column_def get_column_def pd_cut_def bind_def health_indicators_def
      cut_value_bmi serving_bmi_risk_def)
    (simp add: bmi_labels_def)

section \<open>Imputation: properties\<close>

text \<open>
  C1: a numeric feature column whose cells are all missing has no median, and
  \<^verbatim>\<open>fillna\<close> with NaN fills nothing: the column leaves the stage with its two missing
  cells, reported as imputed by the median.
\<close>

theorem imputation_leaves_empty_numeric_column_missing:
  "enhanced_imputation
     [(''age'', Numeric [Some 30, Some 40]), (''insulin'', Numeric [None, None])]
     [''age'', ''insulin''] [] None =
   Inr ([(''age'', Numeric [Some 30, Some 40]), (''insulin'', Numeric [None, None])],
        [(''insulin'', [(''missing_count'', PInt 2), (''imputation_method'', PStr ''median'')])])"
  by (simp add: enhanced_imputation_def impute_numeric_def bind_def get_column_def count_none_def
      medical_features_def fillna_def median_def dropna_def List.map_filter_def
      imputation_record_def)

text \<open>
  The gender-aware branch fills nothing in a row whose gender is itself missing (the
  gender column is imputed after \<^verbatim>\<open>gestational_history\<close> when it comes later in the
  frame).
\<close>

lemma imputation_skips_rows_without_gender:
  "enhanced_imputation
     [(''gestational_history'', Object [Some ''Yes'', None, None, None]),
      (''gender'', Object [Some ''Female'', None, Some ''Male'', Some ''Female''])]
     [] [''gestational_history'', ''gender''] None =
   Inr ([(''gestational_history'',
            Object [Some ''Yes'', None, Some ''Not Applicable'', Some ''Yes'']),
         (''gender'', Object [Some ''Female'', Some ''Female'', Some ''Male'', Some ''Female''])],
        [(''gestational_history'',
            [(''missing_count'', PInt 3), (''imputation_method'', PStr ''gender_aware'')]),
         (''gender'', [(''missing_count'', PInt 1), (''imputation_method'', PStr ''mode'')])])"
  by code_simp

section \<open>Column roles: properties\<close>

text \<open>
  The override of \<^verbatim>\<open>gestational_history\<close> keeps the missing cells missing: the text
  \<^verbatim>\<open>nan\<close> that \<^verbatim>\<open>astype(str)\<close> makes of them is replaced by \<^verbatim>\<open>pd.NA\<close>.
\<close>

lemma gestational_override_keeps_missing:
  "isnull_sum (replace_nan (astype_str f (Numeric xs))) \<ge> isnull_sum (Numeric xs)"
proof -
  have "length (filter (\<lambda>v. v = None) xs) \<le>
        length (filter (\<lambda>v. v = None)
          (map (\<lambda>v. if v = Some ''nan'' then None else v)
             (map (\<lambda>v. case v of None \<Rightarrow> Some ''nan'' | Some x \<Rightarrow> Some (f x)) xs)))"
    by (induction xs) (auto split: option.splits)
  then show ?thesis
    by (simp add: replace_nan_def astype_str_def count_none_def)
qed

text \<open>
  C8: the override of \<^verbatim>\<open>year\<close> has no such replacement. The missing cell of the column
  becomes the text \<^verbatim>\<open>nan\<close>, and the column has no missing cell left to impute.
\<close>

theorem year_override_turns_missing_into_text_nan:
  "classify_columns fmt
     [(''year'', Numeric [Some 2019, None]), (''diabetes'', Numeric [Some 0, Some 1])]
     (Some ''diabetes'') =
   ([(''year'', Object [Some (fmt ''year'' 2019), Some ''nan'']),
     (''diabetes'', Numeric [Some 0, Some 1])],
    [], [''year''])"
  by (simp add: classify_columns_def override_year_def override_gestational_def astype_str_def
      replace_nan_def is_object_def)

section \<open>Feature selection: properties\<close>

lemma map_of_select_columns:
  "map_of (select_columns df names) n = (if n \<in> set names then map_of df n else None)"
  by (induction names) (auto simp: select_columns_def List.map_filter_def split: option.splits)

lemma has_column_iff: "has_column df n \<longleftrightarrow> map_of df n \<noteq> None"
  by (simp add: has_column_def map_of_eq_None_iff)

lemma numeric_feature_cols_subset:
  "set (numeric_feature_cols df t) \<subseteq> fst ` set (features_of df t)"
  by (auto simp: numeric_feature_cols_def)

lemma features_of_subset: "set (features_of df t) \<subseteq> set df"
  by (auto simp: features_of_def)

lemma protected_numeric_iff:
  "col \<in> set (protected_numeric df t) \<longleftrightarrow>
   col \<in> set (numeric_feature_cols df t) \<and> is_protected col"
  using numeric_feature_cols_subset[of df t]
  by (auto simp: protected_numeric_def protected_features_def)

lemma set_sort_by_score: "set (sort_by_score rows) = set rows"
  by (auto simp: sort_by_score_def)

lemma protected_row_in_report:
  assumes "col \<in> set pcols"
  shows "\<lparr>feature = col, score = Some 999, selected = True, protected = True\<rparr>
         \<in> set (selection_report pcols scols scores support)"
  using assms by (simp add: selection_report_def Let_def set_sort_by_score)

lemma apply_selection_result:
  assumes "apply_selection sel df t = Inr (final, applied, report)"
  shows "\<exists>scores support.
           final = select_columns df (protected_numeric df t @ select_mask support (selectable_numeric df t)
                      @ categorical_feature_cols df t @ [t]) \<and>
           applied \<and>
           report = Some (selection_report (protected_numeric df t) (selectable_numeric df t) scores support)"
  using assms
  by (auto simp: apply_selection_def bind_def Let_def split: sum.splits if_splits prod.splits)

text \<open>
  A name that holds a protected term as it is written is protected: the terms are in
  lower case, and lowering the name keeps the occurrence.
\<close>

lemma is_prefix_map: "is_prefix xs ys \<Longrightarrow> is_prefix (map f xs) (map f ys)"
  by (induction xs ys rule: is_prefix.induct) auto

lemma contains_map: "contains name t \<Longrightarrow> contains (map f name) (map f t)"
proof (induction name t rule: contains.induct)
  case (1 name)
  then show ?case by simp
next
  case (2 t ts)
  then show ?case by simp
next
  case (3 c cs t ts)
  then show ?case
    using is_prefix_map[of "t # ts" "c # cs" f] by auto
qed

lemma lower_protected_terms: "term \<in> set protected_terms \<Longrightarrow> lower term = term"
  by (auto simp: protected_terms_def lower_def lower_char_def)

lemma contains_term_is_protected:
  assumes "term \<in> set protected_terms" and "contains col term"
  shows "is_protected col"
proof -
  have "contains (lower col) (lower term)"
    unfolding lower_def using assms(2) by (rule contains_map)
  then have "contains (lower col) term"
    using assms(1) by (simp add: lower_protected_terms)
  then show ?thesis
    using assms(1) by (auto simp: is_protected_def list_ex_iff)
qed

lemma wide_table_selected:
  "(case feature_selection first_k wide_table (Some ''diabetes'') of
      Inr (final, applied, report) \<Rightarrow> applied \<and> report \<noteq> None \<and> length final = 42
    | Inl _ \<Rightarrow> False)"
  by code_simp

lemma wide_table_counts:
  "length wide_table = 52 \<and> length (selectable_numeric wide_table ''diabetes'') = 25 \<and>
   length (numeric_feature_cols wide_table ''diabetes'') = 51"
  by code_simp

lemma wide_table_run:
  obtains final report where
    "feature_selection first_k wide_table (Some ''diabetes'') = Inr (final, True, report)"
  using wide_table_selected
  by (cases "feature_selection first_k wide_table (Some ''diabetes'')") auto

text \<open>
  C3. Whatever step 10 returns, every numeric feature column whose lowercased name holds
  one of the protected terms is in the returned table with its cells; a name that holds
  a term as it is written is such a name (lemma \<^verbatim>\<open>contains_term_is_protected\<close>).
  When the selection is applied the column also has a row in the report with the score
  999, \<^verbatim>\<open>selected = True\<close> and \<^verbatim>\<open>protected = True\<close>: the selector and its scores
  have no part in it.
\<close>

theorem protected_features_retained_and_reported:
  assumes run: "feature_selection select_k_best df_ml target_col = Inr (final, applied, report)"
    and col: "col \<in> set (numeric_feature_cols df_ml (the target_col))"
    and prot: "is_protected col"
  shows "map_of final col = map_of df_ml col \<and> has_column final col \<and>
         (applied \<longrightarrow>
            (\<exists>rows. report = Some rows \<and>
               \<lparr>feature = col, score = Some 999, selected = True, protected = True\<rparr> \<in> set rows))"
proof -
  define t where "t = the target_col"
  have "col \<in> fst ` set df_ml"
    using col numeric_feature_cols_subset[of df_ml t] features_of_subset[of df_ml t]
    unfolding t_def by auto
  then have hc: "has_column df_ml col"
    by (simp add: has_column_def)
  show ?thesis
  proof (cases applied)
    case False
    have "applied" if "apply_selection select_k_best df_ml t = Inr (final, applied, report)"
      using apply_selection_result[OF that] by blast
    with run False have "final = df_ml"
      unfolding feature_selection_def t_def by (auto split: if_splits)
    with hc False show ?thesis by simp
  next
    case True
    with run have ap: "apply_selection select_k_best df_ml t = Inr (final, True, report)"
      unfolding feature_selection_def t_def by (simp split: if_splits)
    from apply_selection_result[OF ap] obtain scores support where
      final: "final = select_columns df_ml (protected_numeric df_ml t @
                 select_mask support (selectable_numeric df_ml t) @
                 categorical_feature_cols df_ml t @ [t])"
      and report: "report = Some (selection_report (protected_numeric df_ml t)
                 (selectable_numeric df_ml t) scores support)"
      by blast
    have pn: "col \<in> set (protected_numeric df_ml t)"
      using col prot unfolding t_def by (simp add: protected_numeric_iff)
    have m: "map_of final col = map_of df_ml col"
      unfolding final using pn by (simp add: map_of_select_columns)
    have h: "has_column final col"
      using hc m by (simp add: has_column_iff)
    show ?thesis
      using m h report protected_row_in_report[OF pn] by simp
  qed
qed

theorem protected_features_retained_and_reported_witness:
  "\<exists>final report.
     feature_selection first_k wide_table (Some ''diabetes'') = Inr (final, True, report) \<and>
     ''age_a'' \<in> set (numeric_feature_cols wide_table ''diabetes'') \<and>
     is_protected ''age_a'' \<and>
     map_of final ''age_a'' = map_of wide_table ''age_a'' \<and> has_column final ''age_a'' \<and>
     (\<exists>rows. report = Some rows \<and>
        \<lparr>feature = ''age_a'', score = Some 999, selected = True, protected = True\<rparr> \<in> set rows)"
proof -
  obtain final report where
    run: "feature_selection first_k wide_table (Some ''diabetes'') = Inr (final, True, report)"
    by (rule wide_table_run)
  have col: "''age_a'' \<in> set (numeric_feature_cols wide_table (the (Some ''diabetes'')))"
    by code_simp
  have prot: "is_protected ''age_a''"
    by code_simp
  show ?thesis
    using run col prot protected_features_retained_and_reported[OF run col prot] by auto
qed

text \<open>
  C6, as the code has it. The selection is applied exactly when the target is named and
  is a column of the table, the table has more than 50 columns, at least one numeric
  feature column is not protected, and there are more than 30 numeric feature columns,
  the protected ones counted; the number of selectable columns is not compared with 30.
  When it is not applied the table is returned as it was and no report is written.
\<close>

theorem feature_selection_applied_iff:
  assumes run: "feature_selection select_k_best df_ml target_col = Inr (final, applied, report)"
  shows "(applied \<longleftrightarrow>
            truthy target_col \<and> has_column df_ml (the target_col) \<and> length df_ml > 50 \<and>
            selectable_numeric df_ml (the target_col) \<noteq> [] \<and>
            length (numeric_feature_cols df_ml (the target_col)) > 30) \<and>
         (\<not> applied \<longrightarrow> final = df_ml \<and> report = None)"
proof (cases "truthy target_col \<and> has_column df_ml (the target_col) \<and> length df_ml > 50 \<and>
            selectable_numeric df_ml (the target_col) \<noteq> [] \<and>
            length (numeric_feature_cols df_ml (the target_col)) > 30")
  case True
  with run have "apply_selection select_k_best df_ml (the target_col) = Inr (final, applied, report)"
    by (simp add: feature_selection_def)
  from apply_selection_result[OF this] have applied by blast
  with True show ?thesis by simp
next
  case False
  with run have "final = df_ml \<and> \<not> applied \<and> report = None"
    by (auto simp: feature_selection_def split: if_splits)
  with False show ?thesis by blast
qed

theorem feature_selection_applied_iff_witness:
  "\<exists>final report.
     feature_selection first_k wide_table (Some ''diabetes'') = Inr (final, True, report) \<and>
     truthy (Some ''diabetes'') \<and> has_column wide_table ''diabetes'' \<and>
     length wide_table > 50 \<and> selectable_numeric wide_table ''diabetes'' \<noteq> [] \<and>
     length (numeric_feature_cols wide_table ''diabetes'') > 30"
proof -
  obtain final report where
    run: "feature_selection first_k wide_table (Some ''diabetes'') = Inr (final, True, report)"
    by (rule wide_table_run)
  show ?thesis
    using run feature_selection_applied_iff[OF run] by auto
qed

text \<open>
  C6 as the spec states it fails. The table has 52 columns and a target; 25 numeric
  feature columns are selectable, fewer than 30, and the selection is applied all the
  same, since there are 51 numeric feature columns: 42 columns are kept and the report
  is written.
\<close>

theorem selection_applied_with_25_selectable_counterexample:
  "(case feature_selection first_k wide_table (Some ''diabetes'') of
      Inr (final, applied, report) \<Rightarrow> applied \<and> report \<noteq> None \<and> length final = 42
    | Inl _ \<Rightarrow> False) \<and>
   length wide_table = 52 \<and>
   length (selectable_numeric wide_table ''diabetes'') = 25 \<and>
   length (numeric_feature_cols wide_table ''diabetes'') = 51"
  using wide_table_selected wide_table_counts by simp

text \<open>
  The field \<^verbatim>\<open>feature_selection_applied\<close> of the processing summary is computed
  from the numbers of columns of the two tables, not from the flag of the selection: it
  reads \<^verbatim>\<open>Yes\<close> as soon as the encoding has added or removed a column.
\<close>

lemma summary_flag_counts_columns:
  "map_of (processing_summary shape df_clean out created method target_col)
     ''feature_selection_applied'' =
   Some (PStr (if length (out_df_ml out) \<noteq> length df_clean then ''Yes'' else ''No''))"
  by (simp add: processing_summary_def)

section \<open>Scaling: properties\<close>

lemma dropna_all_none: "dropna (map (\<lambda>_. None) xs) = []"
  by (induction xs) (auto simp: dropna_def List.map_filter_def)

lemma sum_list_standardized:
  fixes m s :: real
  shows "sum_list (map (\<lambda>x. (x - m) / s) vals) = (sum_list vals - real (length vals) * m) / s"
  by (induction vals) (simp_all add: add_divide_distrib[symmetric] algebra_simps)

lemma sum_list_squares_standardized:
  fixes m s :: real
  shows "sum_list (map (\<lambda>y. y\<^sup>2) (map (\<lambda>x. (x - m) / s) vals)) =
         sum_list (map (\<lambda>x. (x - m)\<^sup>2) vals) / s\<^sup>2"
  by (induction vals) (simp_all add: power_divide add_divide_distrib)

lemma fit_column_values:
  assumes "dropna zs = ys" "ys \<noteq> []"
  shows "fit_column zs =
     (Some (sum_list ys / real (length ys)),
      Some (if sum_list (map (\<lambda>x. (x - sum_list ys / real (length ys))\<^sup>2) ys) / real (length ys) = 0
            then 1
            else sqrt (sum_list (map (\<lambda>x. (x - sum_list ys / real (length ys))\<^sup>2) ys)
                       / real (length ys))))"
  using assms by (simp add: fit_column_def Let_def)

lemma fit_column_standardized:
  "fit_column (transform_column (fit_column xs) xs) =
     (if dropna xs = [] then (None, None) else (Some 0, Some 1))"
proof (cases "dropna xs = []")
  case True
  then show ?thesis
    by (simp add: fit_column_def transform_column_def dropna_all_none)
next
  case False
  define vals where "vals = dropna xs"
  define n where "n = real (length vals)"
  define m where "m = sum_list vals / n"
  define var where "var = sum_list (map (\<lambda>x. (x - m)\<^sup>2) vals) / n"
  define s where "s = (if var = 0 then 1 else sqrt var)"
  have ne: "vals \<noteq> []" using False by (simp add: vals_def)
  then have npos: "0 < n" by (simp add: n_def)
  have fit: "fit_column xs = (Some m, Some s)"
    using ne unfolding fit_column_def Let_def vals_def[symmetric] m_def var_def s_def n_def by simp
  have var0: "0 \<le> var"
    unfolding var_def using npos by (intro divide_nonneg_pos sum_list_nonneg) auto
  have spos: "0 < s" using var0 by (simp add: s_def)
  have s2: "var \<noteq> 0 \<Longrightarrow> s\<^sup>2 = var" using var0 by (simp add: s_def)
  define ys where "ys = map (\<lambda>x. (x - m) / s) vals"
  have tr: "dropna (transform_column (fit_column xs) xs) = ys"
    by (simp add: fit transform_column_def dropna_map ys_def vals_def)
  have ysne: "ys \<noteq> []" using ne by (simp add: ys_def)
  have len: "real (length ys) = n" by (simp add: ys_def n_def)
  have "sum_list vals - n * m = 0" using npos by (simp add: m_def)
  then have sum0: "sum_list ys = 0"
    unfolding ys_def sum_list_standardized n_def[symmetric] by simp
  have var': "sum_list (map (\<lambda>x. (x - 0 / n)\<^sup>2) ys) / n = var / s\<^sup>2"
    unfolding ys_def using sum_list_squares_standardized[of m s vals]
    by (simp add: var_def)
  have w: "var / s\<^sup>2 = 0 \<or> var / s\<^sup>2 = 1"
  proof (cases "var = 0")
    case True
    then show ?thesis by simp
  next
    case False
    then have "s\<^sup>2 = var" by (rule s2)
    then show ?thesis using False by simp
  qed
  have "fit_column (transform_column (fit_column xs) xs) = (Some 0, Some 1)"
    unfolding fit_column_values[OF tr ysne] sum0 len var' using w by auto
  then show ?thesis using False by simp
qed

section \<open>The model-ready table: properties\<close>

lemma bind_Inr_iff: "bind r f = Inr y \<longleftrightarrow> (\<exists>x. r = Inr x \<and> f x = Inr y)"
  by (cases r) (simp_all add: bind_def)

lemma prepare_ml_ready_stages:
  assumes "prepare_ml_ready fmt sel df_clean numeric_cols categorical_cols target_col = Inr out"
  obtains encoded scaled sc final applied report saved where
    "one_hot_encode fmt df_clean categorical_cols = Inr encoded"
    "scale_numeric_features encoded numeric_cols = Inr (scaled, sc)"
    "feature_selection sel scaled target_col = Inr (final, applied, report)"
    "save_scaler sc final (final_numeric_columns encoded numeric_cols) target_col = Inr saved"
    "out = \<lparr>out_df_ml = final,
               out_encoded_columns = categorical_for_encoding df_clean categorical_cols,
               out_final_numeric_cols = final_numeric_columns encoded numeric_cols,
               out_feature_selection_applied = applied,
               out_feature_selection_report = report,
               out_feature_scaler = saved\<rparr>"
proof -
  from assms obtain encoded where e: "one_hot_encode fmt df_clean categorical_cols = Inr encoded"
    and r1: "bind (scale_numeric_features encoded numeric_cols) (\<lambda>(scaled, sc).
     bind (feature_selection sel scaled target_col) (\<lambda>(final, applied, report).
     bind (save_scaler sc final (final_numeric_columns encoded numeric_cols) target_col)
       (\<lambda>saved.
          Inr \<lparr>out_df_ml = final,
               out_encoded_columns = categorical_for_encoding df_clean categorical_cols,
               out_final_numeric_cols = final_numeric_columns encoded numeric_cols,
               out_feature_selection_applied = applied,
               out_feature_selection_report = report,
               out_feature_scaler = saved\<rparr>))) = Inr out"
    unfolding prepare_ml_ready_def bind_Inr_iff[of "one_hot_encode fmt df_clean categorical_cols"] by blast
  from r1 obtain p where s0: "scale_numeric_features encoded numeric_cols = Inr p"
    and r2: "(case p of (scaled, sc) \<Rightarrow>
     bind (feature_selection sel scaled target_col) (\<lambda>(final, applied, report).
     bind (save_scaler sc final (final_numeric_columns encoded numeric_cols) target_col)
       (\<lambda>saved.
          Inr \<lparr>out_df_ml = final,
               out_encoded_columns = categorical_for_encoding df_clean categorical_cols,
               out_final_numeric_cols = final_numeric_columns encoded numeric_cols,
               out_feature_selection_applied = applied,
               out_feature_selection_report = report,
               out_feature_scaler = saved\<rparr>))) = Inr out"
    unfolding bind_Inr_iff[of "scale_numeric_features encoded numeric_cols"] by blast
  obtain scaled sc where p: "p = (scaled, sc)" by (cases p)
  from r2 obtain q where f0: "feature_selection sel scaled target_col = Inr q"
    and r3: "(case q of (final, applied, report) \<Rightarrow>
     bind (save_scaler sc final (final_numeric_columns encoded numeric_cols) target_col)
       (\<lambda>saved.
          Inr \<lparr>out_df_ml = final,
               out_encoded_columns = categorical_for_encoding df_clean categorical_cols,
               out_final_numeric_cols = final_numeric_columns encoded numeric_cols,
               out_feature_selection_applied = applied,
               out_feature_selection_report = report,
               out_feature_scaler = saved\<rparr>)) = Inr out"
    unfolding p prod.case bind_Inr_iff[of "feature_selection sel scaled target_col"] by blast
  obtain final applied report where q: "q = (final, applied, report)" by (cases q)
  from r3 obtain saved where sv: "save_scaler sc final (final_numeric_columns encoded numeric_cols) target_col = Inr saved"
    and o: "Inr \<lparr>out_df_ml = final,
               out_encoded_columns = categorical_for_encoding df_clean categorical_cols,
               out_final_numeric_cols = final_numeric_columns encoded numeric_cols,
               out_feature_selection_applied = applied,
               out_feature_selection_report = report,
               out_feature_scaler = saved\<rparr> = (Inr out :: error + ml_ready)"
    unfolding q prod.case bind_Inr_iff[of "save_scaler sc final (final_numeric_columns encoded numeric_cols) target_col"] by blast
  show thesis
    using that[OF e s0[unfolded p] f0[unfolded q] sv] o by simp
qed

lemma numeric_array_cols:
  "numeric_array df names = Inr cols \<Longrightarrow>
   list_all2 (\<lambda>n xs. \<exists>c. map_of df n = Some c \<and> as_reals c = Some xs) names cols"
proof (induction names arbitrary: cols)
  case Nil
  then show ?case by simp
next
  case (Cons name names)
  from Cons.prems obtain c xs rest where
    c: "map_of df name = Some c" and x: "as_reals c = Some xs"
    and r: "numeric_array df names = Inr rest" and cols: "cols = xs # rest"
    by (auto simp: bind_Inr_iff split: option.splits)
  from Cons.IH[OF r] c x cols show ?case by auto
qed

lemma fit_result:
  assumes "fit df names = Inr fs"
  obtains cols where "numeric_array df names = Inr cols"
    and "feature_names_in fs = names"
    and "mean fs = map (fst \<circ> fit_column) cols"
    and "scale fs = map (snd \<circ> fit_column) cols"
  using assms by (auto simp: fit_def bind_Inr_iff split: if_splits)

lemma fold_update_standardized:
  "n \<in> fst ` set ps \<or> (\<exists>xs. map_of acc n = Some (standardized xs)) \<Longrightarrow>
   \<exists>xs. map_of (fold (\<lambda>(name, xs) acc. AList.update name (standardized xs) acc) ps acc) n
           = Some (standardized xs)"
proof (induction ps arbitrary: acc)
  case Nil
  then show ?case by simp
next
  case (Cons p ps)
  obtain name xs where p: "p = (name, xs)" by (cases p)
  have "n \<in> fst ` set ps \<or>
        (\<exists>ys. map_of (AList.update name (standardized xs) acc) n = Some (standardized ys))"
    using Cons.prems by (auto simp: p update_conv')
  from Cons.IH[OF this] show ?case by (simp add: p)
qed

lemma fit_transform_assign_columns:
  assumes "fit_transform_assign df names = Inr (scaled, sc)" and "n \<in> set names"
  shows "\<exists>xs. map_of scaled n = Some (standardized xs)"
proof -
  from assms(1) obtain cols where
    cols: "numeric_array df names = Inr cols"
    and scaled: "scaled = fold (\<lambda>(name, xs) acc. AList.update name (standardized xs) acc)
                   (zip names cols) df"
    by (auto simp: fit_transform_assign_def bind_Inr_iff)
  have "length names = length cols"
    using numeric_array_cols[OF cols] by (rule list_all2_lengthD)
  then have "n \<in> fst ` set (zip names cols)"
    using assms(2) by (metis map_fst_zip set_map)
  then show ?thesis
    unfolding scaled by (intro fold_update_standardized) simp
qed

lemma feature_selection_keeps_columns:
  assumes "feature_selection sel df t = Inr (final, applied, report)"
    and "has_column final n"
  shows "map_of final n = map_of df n"
proof (cases applied)
  case False
  with assms(1) have "final = df"
    by (auto simp: feature_selection_def split: if_splits dest: apply_selection_result)
  then show ?thesis by simp
next
  case True
  with assms(1) have "apply_selection sel df (the t) = Inr (final, applied, report)"
    by (auto simp: feature_selection_def split: if_splits)
  from apply_selection_result[OF this] obtain names where "final = select_columns df names"
    by blast
  then show ?thesis
    using assms(2) by (auto simp: has_column_iff map_of_select_columns split: if_splits)
qed


lemma dummy_columns_boolean:
  "(n, c) \<in> set (dummy_columns fmt name col) \<Longrightarrow> \<exists>bs. c = Boolean bs"
  by (cases col) (auto simp: dummy_columns_def)

lemma get_dummies_columns:
  assumes "get_dummies fmt df cols = Inr enc" and "(n, c) \<in> set enc"
  shows "((n, c) \<in> set df \<and> n \<notin> set cols) \<or> (\<exists>bs. c = Boolean bs)"
proof -
  from assms(1) have enc: "enc = filter (\<lambda>(name, c). name \<notin> set cols) df @
      concat (map (\<lambda>name. case map_of df name of
                              Some c \<Rightarrow> dummy_columns fmt name c
                            | None \<Rightarrow> []) cols)"
    by (auto simp: get_dummies_def split: option.splits)
  from assms(2) consider "(n, c) \<in> set (filter (\<lambda>(name, c). name \<notin> set cols) df)"
    | name where "name \<in> set cols"
        "(n, c) \<in> set (case map_of df name of Some c \<Rightarrow> dummy_columns fmt name c | None \<Rightarrow> [])"
    unfolding enc by auto
  then show ?thesis
  proof cases
    case 1
    then show ?thesis by auto
  next
    case 2
    then show ?thesis
      by (auto split: option.splits dest: dummy_columns_boolean)
  qed
qed

lemma one_hot_encode_columns:
  assumes "one_hot_encode fmt df cats = Inr enc" and "(n, c) \<in> set enc"
  shows "((n, c) \<in> set df \<and> n \<notin> set (categorical_for_encoding df cats)) \<or>
         (\<exists>bs. c = Boolean bs)"
proof (cases "categorical_for_encoding df cats = []")
  case True
  with assms show ?thesis by (simp add: one_hot_encode_def)
next
  case False
  with assms(1) have "get_dummies fmt df (categorical_for_encoding df cats) = Inr enc"
    by (simp add: one_hot_encode_def)
  from get_dummies_columns[OF this assms(2)] show ?thesis .
qed

lemma set_update_cases:
  "p \<in> set (AList.update k v al) \<Longrightarrow> p = (k, v) \<or> p \<in> set al"
  by (induction al) (auto split: if_splits)

lemma fold_update_columns:
  "(n, c) \<in> set (fold (\<lambda>(name, xs) acc. AList.update name (standardized xs) acc) ps acc) \<Longrightarrow>
   (n, c) \<in> set acc \<or> (n \<in> fst ` set ps \<and> (\<exists>xs. c = standardized xs))"
proof (induction ps arbitrary: acc)
  case Nil
  then show ?case by simp
next
  case (Cons p ps)
  obtain name xs where p: "p = (name, xs)" by (cases p)
  from Cons.prems have
    "(n, c) \<in> set (fold (\<lambda>(name, xs) acc. AList.update name (standardized xs) acc) ps
                      (AList.update name (standardized xs) acc))"
    by (simp add: p)
  from Cons.IH[OF this] show ?case
    using set_update_cases[of "(n, c)" name "standardized xs" acc]
    by (auto simp: p)
qed

lemma scale_numeric_features_columns:
  assumes "scale_numeric_features enc numeric_cols = Inr (scaled, sc)" and "(n, c) \<in> set scaled"
  shows "(n, c) \<in> set enc \<or>
         (n \<in> set (final_numeric_columns enc numeric_cols) \<and> (\<exists>xs. c = Numeric xs))"
proof (cases "final_numeric_columns enc numeric_cols = []")
  case True
  with assms show ?thesis by (simp add: scale_numeric_features_def)
next
  case False
  with assms(1) obtain cols where
    cols: "numeric_array enc (final_numeric_columns enc numeric_cols) = Inr cols"
    and scaled: "scaled = fold (\<lambda>(name, xs) acc. AList.update name (standardized xs) acc)
                   (zip (final_numeric_columns enc numeric_cols) cols) enc"
    by (auto simp: scale_numeric_features_def fit_transform_assign_def bind_Inr_iff)
  from fold_update_columns[OF assms(2)[unfolded scaled]] show ?thesis
    by (auto simp: standardized_def dest: set_zip_leftD)
qed

lemma select_columns_subset: "set (select_columns df names) \<subseteq> set df"
  by (auto simp: select_columns_def List.map_filter_def dest: map_of_SomeD)

lemma feature_selection_subset:
  assumes "feature_selection sel df t = Inr (final, applied, report)"
  shows "set final \<subseteq> set df"
proof (cases applied)
  case False
  with assms have "final = df"
    by (auto simp: feature_selection_def split: if_splits dest: apply_selection_result)
  then show ?thesis by simp
next
  case True
  with assms have "apply_selection sel df (the t) = Inr (final, applied, report)"
    by (auto simp: feature_selection_def split: if_splits)
  from apply_selection_result[OF this] obtain names where "final = select_columns df names"
    by blast
  then show ?thesis by (simp add: select_columns_subset)
qed


subsection \<open>The saved scaler\<close>

lemma fit_column_bmi: "fit_column [Some 19, Some 21] = (Some 20, Some 1)"
  by (simp add: fit_column_def dropna_def List.map_filter_def)

lemma fit_column_insulin: "fit_column [Some 7, Some 7] = (Some 7, Some 1)"
  by (simp add: fit_column_def dropna_def List.map_filter_def)

lemma fit_column_bmi_scaled: "fit_column [Some (-1), Some 1] = (Some 0, Some 1)"
  by (simp add: fit_column_def dropna_def List.map_filter_def)

lemma fit_column_zero: "fit_column [Some 0, Some 0] = (Some 0, Some 1)"
  by (simp add: fit_column_def dropna_def List.map_filter_def)

lemma standardize_example:
  "prepare_ml_ready (\<lambda>c x. []) first_k
     [(''bmi'', Numeric [Some 19, Some 21]), (''insulin'', Numeric [Some 7, Some 7]),
      (''diabetes'', Numeric [Some 0, Some 1])]
     [''bmi'', ''insulin''] [] (Some ''diabetes'') =
   Inr \<lparr>out_df_ml = [(''bmi'', Numeric [Some (-1), Some 1]), (''insulin'', Numeric [Some 0, Some 0]),
                      (''diabetes'', Numeric [Some 0, Some 1])],
        out_encoded_columns = [],
        out_final_numeric_cols = [''bmi'', ''insulin''],
        out_feature_selection_applied = False,
        out_feature_selection_report = None,
        out_feature_scaler = Some \<lparr>feature_names_in = [''bmi'', ''insulin''],
                                    mean = [Some 0, Some 0], scale = [Some 1, Some 1]\<rparr>\<rparr>"
  by (simp add: prepare_ml_ready_def one_hot_encode_def categorical_for_encoding_def
      scale_numeric_features_def final_numeric_columns_def fit_transform_assign_def fit_def
      bind_def standardized_def transform_column_def feature_selection_def truthy_def
      has_column_def save_scaler_def
      fit_column_bmi fit_column_insulin fit_column_bmi_scaled fit_column_zero)

text \<open>
  C10. The scaler that is saved is the one fitted on the final table, whose numeric
  features were standardized in place before: each of its features is a standardized
  column of that table, and the mean and scale stored for it are those of the
  standardized column, which are exactly 0 and 1 in real arithmetic (NaN and NaN for a
  column without any value), whatever the mean and the deviation of the column were
  before the scaling.
\<close>

theorem persisted_scaler_is_fitted_on_standardized_columns:
  assumes run: "prepare_ml_ready fmt sel df_clean numeric_cols categorical_cols target_col = Inr out"
    and saved: "out_feature_scaler out = Some fs"
  shows "fit (out_df_ml out) (feature_names_in fs) = Inr fs \<and>
         feature_names_in fs =
           filter (\<lambda>col. col \<in> set (out_final_numeric_cols out) \<and> Some col \<noteq> target_col)
             (map fst (out_df_ml out)) \<and>
         length (mean fs) = length (feature_names_in fs) \<and>
         length (scale fs) = length (feature_names_in fs) \<and>
         (\<forall>i<length (feature_names_in fs).
            \<exists>xs. map_of (out_df_ml out) (feature_names_in fs ! i) = Some (standardized xs) \<and>
                 (mean fs ! i, scale fs ! i) =
                   (if dropna xs = [] then (None, None) else (Some 0, Some 1)))"
proof -
  from run obtain encoded scaled sc final applied report saved' where
    sc: "scale_numeric_features encoded numeric_cols = Inr (scaled, sc)"
    and fs: "feature_selection sel scaled target_col = Inr (final, applied, report)"
    and sv: "save_scaler sc final (final_numeric_columns encoded numeric_cols) target_col = Inr saved'"
    and out: "out = \<lparr>out_df_ml = final,
               out_encoded_columns = categorical_for_encoding df_clean categorical_cols,
               out_final_numeric_cols = final_numeric_columns encoded numeric_cols,
               out_feature_selection_applied = applied,
               out_feature_selection_report = report,
               out_feature_scaler = saved'\<rparr>"
    by (rule prepare_ml_ready_stages)
  define fnc where "fnc = final_numeric_columns encoded numeric_cols"
  define names where "names = filter (\<lambda>col. col \<in> set fnc \<and> Some col \<noteq> target_col) (map fst final)"
  have saved': "saved' = Some fs" using saved out by simp
  have fit: "fit final names = Inr fs" and scn: "sc \<noteq> None"
    using sv unfolding saved' save_scaler_def fnc_def[symmetric] Let_def names_def[symmetric]
    by (auto simp: bind_Inr_iff split: if_splits)
  from scn sc have fta: "\<exists>s. fit_transform_assign encoded fnc = Inr (scaled, s)"
    unfolding scale_numeric_features_def fnc_def[symmetric]
    by (auto simp: bind_Inr_iff split: if_splits)
  from fit obtain cols where cols: "numeric_array final names = Inr cols"
    and fn: "feature_names_in fs = names"
    and mean: "mean fs = map (fst \<circ> fit_column) cols"
    and scale: "scale fs = map (snd \<circ> fit_column) cols"
    by (rule fit_result)
  have la: "list_all2 (\<lambda>n xs. \<exists>c. map_of final n = Some c \<and> as_reals c = Some xs) names cols"
    by (rule numeric_array_cols[OF cols])
  then have len: "length cols = length names" by (simp add: list_all2_lengthD)
  have each: "\<exists>xs. map_of final (names ! i) = Some (standardized xs) \<and>
                 (mean fs ! i, scale fs ! i) =
                   (if dropna xs = [] then (None, None) else (Some 0, Some 1))"
    if i: "i < length names" for i
  proof -
    have mem: "names ! i \<in> set names" using i by simp
    then have infnc: "names ! i \<in> set fnc" and hc: "has_column final (names ! i)"
      by (auto simp: names_def has_column_def)
    from fta obtain s where "fit_transform_assign encoded fnc = Inr (scaled, s)" by blast
    from fit_transform_assign_columns[OF this infnc] obtain xs where
      xs: "map_of scaled (names ! i) = Some (standardized xs)" by blast
    have fin: "map_of final (names ! i) = Some (standardized xs)"
      using feature_selection_keeps_columns[OF fs hc] xs by simp
    from la i obtain c where "map_of final (names ! i) = Some c" "as_reals c = Some (cols ! i)"
      by (auto simp: list_all2_conv_all_nth)
    with fin have ci: "cols ! i = transform_column (fit_column xs) xs"
      by (simp add: standardized_def)
    have "(mean fs ! i, scale fs ! i) = fit_column (cols ! i)"
      using i len by (simp add: mean scale)
    then have "(mean fs ! i, scale fs ! i) =
        (if dropna xs = [] then (None, None) else (Some 0, Some 1))"
      by (simp only: ci fit_column_standardized)
    with fin show ?thesis
      by blast
  qed
  show ?thesis
    using fit each len by (simp add: out fn mean scale names_def fnc_def)
qed

theorem persisted_scaler_is_fitted_on_standardized_columns_witness:
  "prepare_ml_ready (\<lambda>c x. []) first_k
     [(''bmi'', Numeric [Some 19, Some 21]), (''insulin'', Numeric [Some 7, Some 7]),
      (''diabetes'', Numeric [Some 0, Some 1])]
     [''bmi'', ''insulin''] [] (Some ''diabetes'') =
   Inr \<lparr>out_df_ml = [(''bmi'', Numeric [Some (-1), Some 1]), (''insulin'', Numeric [Some 0, Some 0]),
                      (''diabetes'', Numeric [Some 0, Some 1])],
        out_encoded_columns = [],
        out_final_numeric_cols = [''bmi'', ''insulin''],
        out_feature_selection_applied = False,
        out_feature_selection_report = None,
        out_feature_scaler = Some \<lparr>feature_names_in = [''bmi'', ''insulin''],
                                    mean = [Some 0, Some 0], scale = [Some 1, Some 1]\<rparr>\<rparr> \<and>
   fit [(''bmi'', Numeric [Some (-1), Some 1]), (''insulin'', Numeric [Some 0, Some 0]),
        (''diabetes'', Numeric [Some 0, Some 1])] [''bmi'', ''insulin''] =
     Inr \<lparr>feature_names_in = [''bmi'', ''insulin''],
          mean = [Some 0, Some 0], scale = [Some 1, Some 1]\<rparr> \<and>
   fit [(''bmi'', Numeric [Some 19, Some 21]), (''insulin'', Numeric [Some 7, Some 7]),
        (''diabetes'', Numeric [Some 0, Some 1])] [''bmi'', ''insulin''] =
     Inr \<lparr>feature_names_in = [''bmi'', ''insulin''],
          mean = [Some 20, Some 7], scale = [Some 1, Some 1]\<rparr>"
proof -
  have run: "prepare_ml_ready (\<lambda>c x. []) first_k
     [(''bmi'', Numeric [Some 19, Some 21]), (''insulin'', Numeric [Some 7, Some 7]),
      (''diabetes'', Numeric [Some 0, Some 1])]
     [''bmi'', ''insulin''] [] (Some ''diabetes'') =
   Inr \<lparr>out_df_ml = [(''bmi'', Numeric [Some (-1), Some 1]), (''insulin'', Numeric [Some 0, Some 0]),
                      (''diabetes'', Numeric [Some 0, Some 1])],
        out_encoded_columns = [],
        out_final_numeric_cols = [''bmi'', ''insulin''],
        out_feature_selection_applied = False,
        out_feature_selection_report = None,
        out_feature_scaler = Some \<lparr>feature_names_in = [''bmi'', ''insulin''],
                                    mean = [Some 0, Some 0], scale = [Some 1, Some 1]\<rparr>\<rparr>"
    by (rule standardize_example)
  have raw: "fit [(''bmi'', Numeric [Some 19, Some 21]), (''insulin'', Numeric [Some 7, Some 7]),
        (''diabetes'', Numeric [Some 0, Some 1])] [''bmi'', ''insulin''] =
     Inr \<lparr>feature_names_in = [''bmi'', ''insulin''],
          mean = [Some 20, Some 7], scale = [Some 1, Some 1]\<rparr>"
    by (simp add: fit_def bind_def fit_column_bmi fit_column_insulin)
  show ?thesis
    using run raw persisted_scaler_is_fitted_on_standardized_columns[OF run] by simp
qed

subsection \<open>The dtypes of the model-ready table\<close>

text \<open>
  Where the columns of the model-ready table come from. A column of that table is a bool
  column that one-hot encoding added, or a standardized numeric column, or a column of the
  cleaned table, with the cells it had there, that was not one-hot encoded. Nothing makes
  a column of the last kind numeric.
\<close>

lemma model_ready_column_origin:
  assumes run: "prepare_ml_ready fmt sel df_clean numeric_cols categorical_cols target_col = Inr out"
    and col: "(n, c) \<in> set (out_df_ml out)"
  shows "(\<exists>bs. c = Boolean bs) \<or>
         (n \<in> set (out_final_numeric_cols out) \<and> (\<exists>xs. c = Numeric xs)) \<or>
         ((n, c) \<in> set df_clean \<and> n \<notin> set (out_encoded_columns out))"
proof -
  from run obtain encoded scaled sc final applied report saved where
    enc: "one_hot_encode fmt df_clean categorical_cols = Inr encoded"
    and scl: "scale_numeric_features encoded numeric_cols = Inr (scaled, sc)"
    and fs: "feature_selection sel scaled target_col = Inr (final, applied, report)"
    and out: "out = \<lparr>out_df_ml = final,
               out_encoded_columns = categorical_for_encoding df_clean categorical_cols,
               out_final_numeric_cols = final_numeric_columns encoded numeric_cols,
               out_feature_selection_applied = applied,
               out_feature_selection_report = report,
               out_feature_scaler = saved\<rparr>"
    by (rule prepare_ml_ready_stages)
  from col have "(n, c) \<in> set final" by (simp add: out)
  with feature_selection_subset[OF fs] have "(n, c) \<in> set scaled" by auto
  from scale_numeric_features_columns[OF scl this] one_hot_encode_columns[OF enc]
  show ?thesis
    unfolding out by auto
qed

lemma model_ready_column_numeric_or_kept:
  assumes "prepare_ml_ready fmt sel df_clean numeric_cols categorical_cols target_col = Inr out"
    and "(n, c) \<in> set (out_df_ml out)"
  shows "is_numeric_dtype c \<or> ((n, c) \<in> set df_clean \<and> n \<notin> set (out_encoded_columns out))"
  using model_ready_column_origin[OF assms] by auto

lemma gender_table_encoded:
  "one_hot_encode (\<lambda>c x. [])
     [(''bmi'', Numeric [Some 19, Some 21]), (''gender'', Object [Some ''Female'', Some ''Male'']),
      (''diabetes'', Numeric [Some 0, Some 1])] [''gender''] =
   Inr [(''bmi'', Numeric [Some 19, Some 21]), (''diabetes'', Numeric [Some 0, Some 1]),
        (''gender_Female'', Boolean [True, False]), (''gender_Male'', Boolean [False, True])]"
  by code_simp

lemma gender_table_for_encoding:
  "categorical_for_encoding
     [(''bmi'', Numeric [Some 19, Some 21]), (''gender'', Object [Some ''Female'', Some ''Male'']),
      (''diabetes'', Numeric [Some 0, Some 1])] [''gender''] = [''gender'']"
  by code_simp

lemma gender_table_numeric:
  "final_numeric_columns
     [(''bmi'', Numeric [Some 19, Some 21]), (''diabetes'', Numeric [Some 0, Some 1]),
      (''gender_Female'', Boolean [True, False]), (''gender_Male'', Boolean [False, True])] [''bmi'']
   = [''bmi'']"
  by code_simp

lemma gender_table_model_ready:
  "prepare_ml_ready (\<lambda>c x. []) first_k
     [(''bmi'', Numeric [Some 19, Some 21]), (''gender'', Object [Some ''Female'', Some ''Male'']),
      (''diabetes'', Numeric [Some 0, Some 1])]
     [''bmi''] [''gender''] (Some ''diabetes'') =
   Inr \<lparr>out_df_ml = [(''bmi'', Numeric [Some (-1), Some 1]), (''diabetes'', Numeric [Some 0, Some 1]),
                      (''gender_Female'', Boolean [True, False]),
                      (''gender_Male'', Boolean [False, True])],
        out_encoded_columns = [''gender''],
        out_final_numeric_cols = [''bmi''],
        out_feature_selection_applied = False,
        out_feature_selection_report = None,
        out_feature_scaler = Some \<lparr>feature_names_in = [''bmi''],
                                    mean = [Some 0], scale = [Some 1]\<rparr>\<rparr>"
  by (simp add: prepare_ml_ready_def gender_table_encoded gender_table_for_encoding gender_table_numeric
      scale_numeric_features_def fit_transform_assign_def fit_def
      bind_def standardized_def transform_column_def feature_selection_def truthy_def
      has_column_def save_scaler_def
      fit_column_bmi fit_column_bmi_scaled)

lemma city_dedup: "drop_duplicates city_table = city_table"
  by code_simp

lemma city_roles:
  "classify_columns (\<lambda>c x. []) city_table (Some ''diabetes'') = (city_table, [], [''city''])"
  by code_simp

lemma city_imputation:
  "enhanced_imputation city_table [] [''city''] (Some ''diabetes'') =
   Inr (city_imputed,
        [(''city'', [(''missing_count'', PInt 1), (''imputation_method'', PStr ''mode'')])])"
  by code_simp

lemma city_engineering:
  "feature_engineering city_imputed (Some ''diabetes'') = Inr (city_imputed, [])"
  by code_simp

lemma city_extend_roles:
  "extend_roles city_imputed [] [] [''city''] = ([], [''city''])"
  by code_simp

lemma city_cardinality:
  "handle_high_cardinality_categorical zero_encoder city_imputed [''city''] (Some ''diabetes'') 15 =
   Inr (city_clean,
        [(''city'', [(''method'', PStr ''target_encoding''),
                    (''new_column'', PStr ''city_target_encoded''),
                    (''original_categories'', PInt 16)])])"
  by code_simp

lemma city_for_encoding: "categorical_for_encoding city_clean [''city''] = []"
  by code_simp

lemma city_numeric: "final_numeric_columns city_clean [] = [''city_target_encoded'']"
  by code_simp

lemma fit_column_zeros:
  "fit_column
     [Some 0, Some 0, Some 0, Some 0, Some 0, Some 0, Some 0, Some 0, Some 0, Some 0,
      Some 0, Some 0, Some 0, Some 0, Some 0, Some 0, Some 0] = (Some 0, Some 1)"
  by (simp add: fit_column_def dropna_def List.map_filter_def)

lemma city_scaled:
  "fit_transform_assign city_clean [''city_target_encoded''] =
   Inr (city_clean,
        \<lparr>feature_names_in = [''city_target_encoded''], mean = [Some 0], scale = [Some 1]\<rparr>)"
  by (simp add: fit_transform_assign_def fit_def bind_def city_clean_def city_imputed_def
      fit_column_zeros standardized_def transform_column_def)

lemma city_fit:
  "fit city_clean [''city_target_encoded''] =
   Inr \<lparr>feature_names_in = [''city_target_encoded''], mean = [Some 0], scale = [Some 1]\<rparr>"
  by (simp add: fit_def bind_def city_clean_def city_imputed_def fit_column_zeros)

lemma city_not_selected:
  "feature_selection first_k city_clean (Some ''diabetes'') = Inr (city_clean, False, None)"
  by (simp add: feature_selection_def city_clean_def city_imputed_def)

lemma city_saved:
  "save_scaler (Some sc) city_clean [''city_target_encoded''] (Some ''diabetes'') =
   Inr (Some \<lparr>feature_names_in = [''city_target_encoded''], mean = [Some 0],
              scale = [Some 1]\<rparr>)"
proof -
  have "filter (\<lambda>col. col \<in> set [''city_target_encoded''] \<and> Some col \<noteq> Some ''diabetes'')
          (map fst city_clean) = [''city_target_encoded'']"
    by (simp add: city_clean_def city_imputed_def)
  then show ?thesis
    by (simp add: save_scaler_def city_fit bind_def)
qed

lemma city_model_ready:
  "prepare_ml_ready (\<lambda>c x. []) first_k city_clean [] [''city''] (Some ''diabetes'') =
   Inr \<lparr>out_df_ml = city_clean,
        out_encoded_columns = [],
        out_final_numeric_cols = [''city_target_encoded''],
        out_feature_selection_applied = False,
        out_feature_selection_report = None,
        out_feature_scaler = Some \<lparr>feature_names_in = [''city_target_encoded''],
                                    mean = [Some 0], scale = [Some 1]\<rparr>\<rparr>"
  by (simp add: prepare_ml_ready_def one_hot_encode_def city_for_encoding
      scale_numeric_features_def city_numeric city_scaled bind_def city_not_selected city_saved)

lemma city_run:
  "enhanced_preprocessing (\<lambda>c x. []) zero_encoder first_k city_table (Some ''diabetes'')
     ''cap'' True =
   Inr \<lparr>imputation_report =
          [(''city'', [(''missing_count'', PInt 1), (''imputation_method'', PStr ''mode'')])],
        outlier_treatment_report = None,
        encoding_report =
          Some [(''city'', [(''method'', PStr ''target_encoding''),
                           (''new_column'', PStr ''city_target_encoded''),
                           (''original_categories'', PInt 16)])],
        readable = city_clean,
        model_ready =
          \<lparr>out_df_ml = city_clean,
           out_encoded_columns = [],
           out_final_numeric_cols = [''city_target_encoded''],
           out_feature_selection_applied = False,
           out_feature_selection_report = None,
           out_feature_scaler = Some \<lparr>feature_names_in = [''city_target_encoded''],
                                       mean = [Some 0], scale = [Some 1]\<rparr>\<rparr>,
        summary =
          processing_summary (17, 2) city_clean
            \<lparr>out_df_ml = city_clean,
             out_encoded_columns = [],
             out_final_numeric_cols = [''city_target_encoded''],
             out_feature_selection_applied = False,
             out_feature_selection_report = None,
             out_feature_scaler = Some \<lparr>feature_names_in = [''city_target_encoded''],
                                         mean = [Some 0], scale = [Some 1]\<rparr>\<rparr>
            0 ''cap'' (Some ''diabetes'')\<rparr>"
proof -
  have shape: "nrows city_table = 17" "length city_table = 2"
    by (simp_all add: city_table_def)
  show ?thesis
    unfolding enhanced_preprocessing_def Let_def city_dedup city_roles prod.case city_imputation
    by (simp add: bind_def city_engineering city_extend_roles city_cardinality city_model_ready
        shape)
qed

text \<open>
  The text column \<^verbatim>\<open>city\<close> has 16 different values, so step 6 adds its target encoding
  and keeps the column; step 8 leaves a column with a target-encoded copy out of the
  one-hot encoding, and the model-ready table of the run holds \<^verbatim>\<open>city\<close> as the text
  column it was.
\<close>

lemma target_encoded_original_stays_text:
  "(case enhanced_preprocessing (\<lambda>c x. []) zero_encoder first_k city_table (Some ''diabetes'')
          ''cap'' True of
      Inl e \<Rightarrow> None
    | Inr a \<Rightarrow> map_of (out_df_ml (model_ready a)) ''city'') =
   Some (Object
        [Some ''c01'', Some ''c02'', Some ''c03'', Some ''c04'', Some ''c05'',
         Some ''c06'', Some ''c07'', Some ''c08'', Some ''c09'', Some ''c10'',
         Some ''c11'', Some ''c12'', Some ''c13'', Some ''c14'', Some ''c15'',
         Some ''c16'', Some ''c01''])"
  by (simp add: city_run city_clean_def city_imputed_def)

text \<open>
  The engineered column \<^verbatim>\<open>bmi_risk_level\<close> has the dtype \<^verbatim>\<open>category\<close>, not
  \<^verbatim>\<open>object\<close>: line 589 does not count it as categorical, it is listed with the
  numeric columns, is not numeric when step 8 filters them, and reaches the model-ready
  table as the categorical column it was.
\<close>

lemma bmi_dedup: "drop_duplicates bmi_table = bmi_table"
  by code_simp

lemma bmi_roles:
  "classify_columns (\<lambda>c x. []) bmi_table (Some ''diabetes'') =
   (bmi_table, [''bmi'', ''insulin''], [])"
  by code_simp

lemma bmi_imputation:
  "enhanced_imputation bmi_table [''bmi'', ''insulin''] [] (Some ''diabetes'') =
   Inr (bmi_imputed,
        [(''insulin'', [(''missing_count'', PInt 1), (''imputation_method'', PStr ''median'')])])"
  by code_simp

lemma bmi_outliers:
  "handle_outliers bmi_imputed [''bmi'', ''insulin''] ''cap'' (3 / 2) =
   Inr (bmi_imputed,
        [(''bmi'', [(''outlier_count'', PInt 0), (''outlier_percentage'', PFloat 0),
                   (''method_applied'', PStr ''none'')]),
         (''insulin'', [(''outlier_count'', PInt 0), (''outlier_percentage'', PFloat 0),
                       (''method_applied'', PStr ''none'')])])"
  by code_simp

lemma bmi_engineering:
  "feature_engineering bmi_imputed (Some ''diabetes'') = Inr (bmi_engineered, [''bmi_risk_level''])"
  by code_simp

lemma bmi_extend_roles:
  "extend_roles bmi_engineered [''bmi_risk_level''] [''bmi'', ''insulin''] [] =
   ([''bmi'', ''insulin'', ''bmi_risk_level''], [])"
  by code_simp

lemma bmi_cardinality:
  "handle_high_cardinality_categorical zero_encoder bmi_engineered [] (Some ''diabetes'') 15 =
   Inr (bmi_engineered, [])"
  by code_simp

lemma bmi_for_encoding: "categorical_for_encoding bmi_engineered [] = []"
  by code_simp

lemma bmi_numeric:
  "final_numeric_columns bmi_engineered [''bmi'', ''insulin'', ''bmi_risk_level''] =
   [''bmi'', ''insulin'']"
  by code_simp

lemma bmi_scaled:
  "fit_transform_assign bmi_engineered [''bmi'', ''insulin''] =
   Inr ([(''bmi'', Numeric [Some (-1), Some 1]), (''insulin'', Numeric [Some 0, Some 0]),
      (''diabetes'', Numeric [Some 0, Some 1]),
      (''bmi_risk_level'',
         Category [''underweight'', ''normal'', ''overweight'', ''obese_1'', ''obese_2'']
           [Some ''normal'', Some ''normal''])],
        \<lparr>feature_names_in = [''bmi'', ''insulin''], mean = [Some 20, Some 7],
          scale = [Some 1, Some 1]\<rparr>)"
  by (simp add: fit_transform_assign_def fit_def bind_def bmi_engineered_def bmi_imputed_def
      fit_column_bmi fit_column_insulin standardized_def transform_column_def)

lemma bmi_not_selected:
  "feature_selection first_k
     [(''bmi'', Numeric [Some (-1), Some 1]), (''insulin'', Numeric [Some 0, Some 0]),
      (''diabetes'', Numeric [Some 0, Some 1]),
      (''bmi_risk_level'',
         Category [''underweight'', ''normal'', ''overweight'', ''obese_1'', ''obese_2'']
           [Some ''normal'', Some ''normal''])] (Some ''diabetes'') =
   Inr ([(''bmi'', Numeric [Some (-1), Some 1]), (''insulin'', Numeric [Some 0, Some 0]),
      (''diabetes'', Numeric [Some 0, Some 1]),
      (''bmi_risk_level'',
         Category [''underweight'', ''normal'', ''overweight'', ''obese_1'', ''obese_2'']
           [Some ''normal'', Some ''normal''])], False, None)"
  by (simp add: feature_selection_def)

lemma bmi_saved:
  "save_scaler (Some sc)
     [(''bmi'', Numeric [Some (-1), Some 1]), (''insulin'', Numeric [Some 0, Some 0]),
      (''diabetes'', Numeric [Some 0, Some 1]),
      (''bmi_risk_level'',
         Category [''underweight'', ''normal'', ''overweight'', ''obese_1'', ''obese_2'']
           [Some ''normal'', Some ''normal''])] [''bmi'', ''insulin''] (Some ''diabetes'') =
   Inr (Some \<lparr>feature_names_in = [''bmi'', ''insulin''], mean = [Some 0, Some 0],
              scale = [Some 1, Some 1]\<rparr>)"
  by (simp add: save_scaler_def fit_def bind_def fit_column_bmi_scaled fit_column_zero)

lemma bmi_model_ready:
  "prepare_ml_ready (\<lambda>c x. []) first_k bmi_engineered [''bmi'', ''insulin'', ''bmi_risk_level'']
     [] (Some ''diabetes'') =
   Inr \<lparr>out_df_ml =
          [(''bmi'', Numeric [Some (-1), Some 1]), (''insulin'', Numeric [Some 0, Some 0]),
      (''diabetes'', Numeric [Some 0, Some 1]),
      (''bmi_risk_level'',
         Category [''underweight'', ''normal'', ''overweight'', ''obese_1'', ''obese_2'']
           [Some ''normal'', Some ''normal''])],
        out_encoded_columns = [],
        out_final_numeric_cols = [''bmi'', ''insulin''],
        out_feature_selection_applied = False,
        out_feature_selection_report = None,
        out_feature_scaler = Some \<lparr>feature_names_in = [''bmi'', ''insulin''],
                                    mean = [Some 0, Some 0], scale = [Some 1, Some 1]\<rparr>\<rparr>"
  by (simp add: prepare_ml_ready_def one_hot_encode_def bmi_for_encoding
      scale_numeric_features_def bmi_numeric bmi_scaled bind_def bmi_not_selected bmi_saved)

lemma engineered_bmi_risk_level_stays_categorical:
  "(case enhanced_preprocessing (\<lambda>c x. []) zero_encoder first_k bmi_table (Some ''diabetes'')
          ''cap'' True of
      Inl e \<Rightarrow> None
    | Inr a \<Rightarrow> map_of (out_df_ml (model_ready a)) ''bmi_risk_level'') =
   Some (Category [''underweight'', ''normal'', ''overweight'', ''obese_1'', ''obese_2'']
           [Some ''normal'', Some ''normal''])"
  unfolding enhanced_preprocessing_def Let_def bmi_dedup bmi_roles prod.case bmi_imputation
  by (simp add: bind_def bmi_outliers bmi_engineering bmi_extend_roles bmi_cardinality
      bmi_model_ready)

text \<open>
  C4 fails in the code: the model-ready table of a run can hold columns other than the
  target that are not numeric. In the first run the text column \<^verbatim>\<open>city\<close>, which was
  target-encoded, is in the model-ready table as text, beside its encoded copy. In the
  second run, on a table with a \<^verbatim>\<open>bmi\<close> column and the feature engineering that is on
  by default, the engineered column \<^verbatim>\<open>bmi_risk_level\<close> is in the model-ready table with
  the dtype \<^verbatim>\<open>category\<close>. Neither column is numeric, and one-hot encoding added no
  column for either.
\<close>

theorem model_ready_table_holds_non_numeric_columns:
  "(case enhanced_preprocessing (\<lambda>c x. []) zero_encoder first_k city_table (Some ''diabetes'')
          ''cap'' True of
      Inl e \<Rightarrow> None
    | Inr a \<Rightarrow> map_option (\<lambda>c. (c, is_numeric_dtype c, out_encoded_columns (model_ready a)))
               (map_of (out_df_ml (model_ready a)) ''city'')) =
   Some (Object
        [Some ''c01'', Some ''c02'', Some ''c03'', Some ''c04'', Some ''c05'',
         Some ''c06'', Some ''c07'', Some ''c08'', Some ''c09'', Some ''c10'',
         Some ''c11'', Some ''c12'', Some ''c13'', Some ''c14'', Some ''c15'',
         Some ''c16'', Some ''c01''], False, []) \<and>
   (case enhanced_preprocessing (\<lambda>c x. []) zero_encoder first_k bmi_table (Some ''diabetes'')
          ''cap'' True of
      Inl e \<Rightarrow> None
    | Inr a \<Rightarrow> map_option (\<lambda>c. (c, is_numeric_dtype c, out_encoded_columns (model_ready a)))
               (map_of (out_df_ml (model_ready a)) ''bmi_risk_level'')) =
   Some (Category [''underweight'', ''normal'', ''overweight'', ''obese_1'', ''obese_2'']
           [Some ''normal'', Some ''normal''], False, [])"
proof -
  have city: "(case enhanced_preprocessing (\<lambda>c x. []) zero_encoder first_k city_table
          (Some ''diabetes'') ''cap'' True of
      Inl e \<Rightarrow> None
    | Inr a \<Rightarrow> map_option (\<lambda>c. (c, is_numeric_dtype c, out_encoded_columns (model_ready a)))
               (map_of (out_df_ml (model_ready a)) ''city'')) =
   Some (Object
        [Some ''c01'', Some ''c02'', Some ''c03'', Some ''c04'', Some ''c05'',
         Some ''c06'', Some ''c07'', Some ''c08'', Some ''c09'', Some ''c10'',
         Some ''c11'', Some ''c12'', Some ''c13'', Some ''c14'', Some ''c15'',
         Some ''c16'', Some ''c01''], False, [])"
    by (simp add: city_run city_clean_def city_imputed_def)
  have bmi: "(case enhanced_preprocessing (\<lambda>c x. []) zero_encoder first_k bmi_table
          (Some ''diabetes'') ''cap'' True of
      Inl e \<Rightarrow> None
    | Inr a \<Rightarrow> map_option (\<lambda>c. (c, is_numeric_dtype c, out_encoded_columns (model_ready a)))
               (map_of (out_df_ml (model_ready a)) ''bmi_risk_level'')) =
   Some (Category [''underweight'', ''normal'', ''overweight'', ''obese_1'', ''obese_2'']
           [Some ''normal'', Some ''normal''], False, [])"
    unfolding enhanced_preprocessing_def Let_def bmi_dedup bmi_roles prod.case bmi_imputation
    by (simp add: bind_def bmi_outliers bmi_engineering bmi_extend_roles bmi_cardinality
        bmi_model_ready)
  from city bmi show ?thesis by (rule conjI)
qed

section \<open>The prediction service: properties\<close>

lemma model_risk_total: "\<exists>r u c. model_risk svc m schema name features g h = (r, u, c)"
  by (cases "model_risk svc m schema name features g h") auto



end
